theory Spec2Isabelle
  imports Main "HOL-Library.Multiset"
begin

section \<open>Go strings and the library calls the package uses\<close>

text \<open>
  A Go string is a sequence of bytes, here a \<^typ>\<open>string\<close>. The generator builds its
  output with \<^verbatim>\<open>strings.Builder\<close> and \<^verbatim>\<open>fmt.Sprintf\<close> with the verbs
  \<^verbatim>\<open>%s\<close> and \<^verbatim>\<open>%d\<close>: concatenation, and the decimal digits of an index.
\<close>

abbreviation NL :: string where
  "NL \<equiv> [CHR 0x0A]"

abbreviation QUOTE :: char where
  "QUOTE \<equiv> CHR 0x27"

abbreviation BACKSLASH :: char where
  "BACKSLASH \<equiv> CHR 0x5C"

abbreviation BACKTICK :: char where
  "BACKTICK \<equiv> CHR 0x60"

text \<open>\<^verbatim>\<open>strings.Join(elems, sep)\<close>.\<close>

fun Join :: "string list \<Rightarrow> string \<Rightarrow> string" where
  "Join [] sep = []"
| "Join [x] sep = x"
| "Join (x # y # ys) sep = x @ sep @ Join (y # ys) sep"

text \<open>The verb \<^verbatim>\<open>%d\<close> on a slice index, which is never negative.\<close>

definition digit :: "nat \<Rightarrow> char" where
  "digit d = ''0123456789'' ! d"

fun Sprintf_d :: "nat \<Rightarrow> string" where
  "Sprintf_d n = (if n < 10 then [digit n] else Sprintf_d (n div 10) @ [digit (n mod 10)])"

declare Sprintf_d.simps [simp del]

text \<open>
  \<^verbatim>\<open>strings.ReplaceAll(s, "'", "\\'")\<close>: the pattern is one byte, so the matches cannot
  overlap and every occurrence of that byte is replaced by the two bytes backslash, quote.
\<close>

fun ReplaceAll_quote :: "string \<Rightarrow> string" where
  "ReplaceAll_quote [] = []"
| "ReplaceAll_quote (c # cs) =
     (if c = QUOTE then BACKSLASH # QUOTE # ReplaceAll_quote cs else c # ReplaceAll_quote cs)"

definition escapeString :: "string \<Rightarrow> string" where
  "escapeString s = ReplaceAll_quote s"

text \<open>\<^verbatim>\<open>strings.Contains(value, " ")\<close>: the needle is the single byte 0x20.\<close>

definition Contains_space :: "string \<Rightarrow> bool" where
  "Contains_space s = (CHR 0x20 \<in> set s)"

section \<open>The schema model (types.go)\<close>

text \<open>
  Every struct is a record whose fields carry the struct's name as a prefix, since
  several structs share field names. A pointer field is an \<^typ>\<open>'a option\<close>, with
  \<^const>\<open>None\<close> for \<^verbatim>\<open>nil\<close>. \<^verbatim>\<open>RelType\<close> and \<^verbatim>\<open>RefAction\<close> are
  string types in the source, so any string can occur in them.
\<close>

type_synonym RelType = string
type_synonym RefAction = string

definition defaultSchema :: string where
  "defaultSchema = ''public''"

definition OneToMany :: RelType where "OneToMany = ''<''"
definition ManyToOne :: RelType where "ManyToOne = ''>''"
definition OneToOne :: RelType where "OneToOne = ''-''"
definition ManyToMany :: RelType where "ManyToMany = ''<>''"

definition Cascade :: RefAction where "Cascade = ''cascade''"
definition Restrict :: RefAction where "Restrict = ''restrict''"
definition SetNull :: RefAction where "SetNull = ''set null''"
definition SetDefault :: RefAction where "SetDefault = ''set default''"
definition NoAction :: RefAction where "NoAction = ''no action''"

record ColumnSettings =
  ColumnSettings_Default :: "string option"
  ColumnSettings_Check :: "string option"
  ColumnSettings_PrimaryKey :: bool
  ColumnSettings_Null :: bool
  ColumnSettings_Unique :: bool
  ColumnSettings_Increment :: bool

record InlineRef =
  InlineRef_Type :: RelType
  InlineRef_Schema :: string
  InlineRef_Table :: string
  InlineRef_Column :: string

record Column =
  Column_Settings :: "ColumnSettings option"
  Column_Note :: "string option"
  Column_InlineRef :: "InlineRef option"
  Column_Name :: string
  Column_Type :: string

record IndexColumn =
  IndexColumn_Name :: "string option"
  IndexColumn_Expression :: "string option"

record Index =
  Index_Type :: "string option"
  Index_Name :: "string option"
  Index_Note :: "string option"
  Index_Columns :: "IndexColumn list"
  Index_Unique :: bool
  Index_PrimaryKey :: bool

record RefEndpoint =
  RefEndpoint_Schema :: string
  RefEndpoint_Table :: string
  RefEndpoint_Columns :: "string list"

record Ref =
  Ref_Name :: "string option"
  Ref_Left :: "RefEndpoint option"
  Ref_Right :: "RefEndpoint option"
  Ref_OnDelete :: "RefAction option"
  Ref_OnUpdate :: "RefAction option"
  Ref_Color :: "string option"
  Ref_Type :: RelType

record Enum =
  Enum_Note :: "string option"
  Enum_Schema :: string
  Enum_Name :: string
  Enum_Values :: "string list"

record TableRef =
  TableRef_Schema :: string
  TableRef_Name :: string

record TableGroup =
  TableGroup_Name :: string
  TableGroup_Tables :: "TableRef list"

text \<open>
  A Go map is the list of its entries, keys distinct. The functions below iterate
  such a list from its head: their argument holds each map in the order in which the
  \<^verbatim>\<open>range\<close> statement of the call at hand yields the entries. Go fixes no
  iteration order for a map, and two calls on one and the same map may see its
  entries in two different orders; the last section of the model makes that order an
  argument of the call.
\<close>

type_synonym 'a gomap = "(string \<times> 'a) list"

record Table =
  Table_Alias :: "string option"
  Table_Note :: "string option"
  Table_Settings :: "string gomap"
  Table_Schema :: string
  Table_Name :: string
  Table_Columns :: "Column option list"
  Table_Indexes :: "Index option list"

record Project =
  Project_Name :: string
  Project_DatabaseType :: "string option"
  Project_Note :: "string option"
  Project_Tables :: "Table option gomap"
  Project_Enums :: "Enum option gomap"
  Project_TableGroups :: "TableGroup option list"
  Project_Refs :: "Ref option list"

section \<open>The generator (generator.go)\<close>

text \<open>
  A run either returns a value or panics; the only panic these functions can raise is
  the nil-pointer dereference, when an entry of a slice or map of pointers is
  \<^verbatim>\<open>nil\<close> and the callee reads its first field.
\<close>

datatype 'a outcome = Panic | Returns 'a

text \<open>
  \<^verbatim>\<open>for _, x := range xs { b.WriteString(...x.Generate()...) }\<close> over pointers: the
  builder \<open>b\<close> grows by the text of each entry in turn.
\<close>

fun write_each :: "('a \<Rightarrow> string outcome) \<Rightarrow> string \<Rightarrow> 'a option list \<Rightarrow> string outcome" where
  "write_each f b [] = Returns b"
| "write_each f b (None # xs) = Panic"
| "write_each f b (Some x # xs) =
     (case f x of Panic \<Rightarrow> Panic | Returns s \<Rightarrow> write_each f (b @ s) xs)"

definition formatRefEndpoint :: "RefEndpoint option \<Rightarrow> string" where
  "formatRefEndpoint endpoint =
     (case endpoint of
        None \<Rightarrow> []
      | Some e \<Rightarrow>
          (let tableName = RefEndpoint_Table e;
               tableName = (if RefEndpoint_Schema e \<noteq> defaultSchema
                            then RefEndpoint_Schema e @ ''.'' @ RefEndpoint_Table e
                            else tableName)
           in if length (RefEndpoint_Columns e) = 1
              then tableName @ ''.'' @ RefEndpoint_Columns e ! 0
              else tableName @ ''.('' @ Join (RefEndpoint_Columns e) '', '' @ '')''))"

definition Column_Generate :: "Column \<Rightarrow> string" where
  "Column_Generate c =
     (let b = Column_Name c @ '' '' @ Column_Type c;
          settings = [];
          settings =
            (case Column_Settings c of
               None \<Rightarrow> settings
             | Some s \<Rightarrow>
                 (let settings = (if ColumnSettings_PrimaryKey s then settings @ [''pk''] else settings);
                      settings = (if ColumnSettings_Unique s then settings @ [''unique''] else settings);
                      settings = (if \<not> ColumnSettings_Null s then settings @ [''not null''] else settings);
                      settings = (if ColumnSettings_Increment s then settings @ [''increment''] else settings);
                      settings = (case ColumnSettings_Default s of
                                    None \<Rightarrow> settings
                                  | Some d \<Rightarrow> settings @ [''default: '' @ d]);
                      settings = (case ColumnSettings_Check s of
                                    None \<Rightarrow> settings
                                  | Some k \<Rightarrow> settings @ [''check: '' @ [QUOTE] @ escapeString k @ [QUOTE]])
                  in settings));
          settings =
            (case Column_InlineRef c of
               None \<Rightarrow> settings
             | Some r \<Rightarrow>
                 (let refTarget = InlineRef_Schema r @ ''.'' @ InlineRef_Table r @ ''.'' @ InlineRef_Column r
                  in settings @ [''ref: '' @ InlineRef_Type r @ '' '' @ refTarget]));
          settings =
            (case Column_Note c of
               None \<Rightarrow> settings
             | Some n \<Rightarrow> settings @ [''note: '' @ [QUOTE] @ escapeString n @ [QUOTE]])
      in if length settings > 0 then b @ '' ['' @ Join settings '', '' @ '']'' else b)"

text \<open>The loop of \<^verbatim>\<open>Index.Generate\<close> that collects the column texts.\<close>

fun Index_columns :: "string list \<Rightarrow> IndexColumn list \<Rightarrow> string list" where
  "Index_columns columns [] = columns"
| "Index_columns columns (col # cols) =
     Index_columns
       (case IndexColumn_Name col of
          Some n \<Rightarrow> columns @ [n]
        | None \<Rightarrow>
            (case IndexColumn_Expression col of
               Some e \<Rightarrow> columns @ [[BACKTICK] @ e @ [BACKTICK]]
             | None \<Rightarrow> columns))
       cols"

definition Index_Generate :: "Index \<Rightarrow> string" where
  "Index_Generate i =
     (let b = ''('' @ Join (Index_columns [] (Index_Columns i)) '', '' @ '')'';
          settings = [];
          settings = (if Index_PrimaryKey i then settings @ [''pk''] else settings);
          settings = (if Index_Unique i then settings @ [''unique''] else settings);
          settings = (case Index_Type i of None \<Rightarrow> settings | Some t \<Rightarrow> settings @ [''type: '' @ t]);
          settings = (case Index_Name i of
                        None \<Rightarrow> settings
                      | Some n \<Rightarrow> settings @ [''name: '' @ [QUOTE] @ escapeString n @ [QUOTE]]);
          settings = (case Index_Note i of
                        None \<Rightarrow> settings
                      | Some n \<Rightarrow> settings @ [''note: '' @ [QUOTE] @ escapeString n @ [QUOTE]])
      in if length settings > 0 then b @ '' ['' @ Join settings '', '' @ '']'' else b)"

definition Ref_Generate :: "Ref \<Rightarrow> string" where
  "Ref_Generate r =
     (let b = (case Ref_Name r of Some n \<Rightarrow> ''Ref '' @ n | None \<Rightarrow> ''Ref'');
          settings = [];
          settings = (case Ref_OnDelete r of None \<Rightarrow> settings | Some a \<Rightarrow> settings @ [''delete: '' @ a]);
          settings = (case Ref_OnUpdate r of None \<Rightarrow> settings | Some a \<Rightarrow> settings @ [''update: '' @ a]);
          settings = (case Ref_Color r of None \<Rightarrow> settings | Some c \<Rightarrow> settings @ [''color: '' @ c]);
          b = (if length settings > 0 then b @ '' ['' @ Join settings '', '' @ '']'' else b);
          b = b @ '' {'' @ NL;
          leftRef = formatRefEndpoint (Ref_Left r);
          rightRef = formatRefEndpoint (Ref_Right r);
          b = b @ ''  '' @ leftRef @ '' '' @ Ref_Type r @ '' '' @ rightRef @ NL
      in b @ ''}'' @ NL)"

text \<open>
  \<^verbatim>\<open>Enum.Generate\<close> prints a value that contains a space with the verb \<^verbatim>\<open>%q\<close>,
  Go's \<^verbatim>\<open>strconv.Quote\<close>. That function belongs to the standard library, with its
  tables of printable code points, and is the parameter \<open>quote\<close> here.
\<close>

definition Enum_Generate :: "(string \<Rightarrow> string) \<Rightarrow> Enum \<Rightarrow> string" where
  "Enum_Generate quote e =
     (let enumName = Enum_Name e;
          enumName = (if Enum_Schema e \<noteq> defaultSchema then Enum_Schema e @ ''.'' @ Enum_Name e
                      else enumName);
          b = ''Enum '' @ enumName @ '' {'' @ NL;
          b = foldl (\<lambda>b v. if Contains_space v then b @ ''  '' @ quote v @ NL
                             else b @ ''  '' @ v @ NL) b (Enum_Values e);
          b = (case Enum_Note e of
                 None \<Rightarrow> b
               | Some n \<Rightarrow> b @ NL @ ''  Note: '' @ [QUOTE] @ escapeString n @ [QUOTE] @ NL)
      in b @ ''}'' @ NL)"

definition TableGroup_Generate :: "TableGroup \<Rightarrow> string" where
  "TableGroup_Generate tg =
     (let b = ''TableGroup '' @ TableGroup_Name tg @ '' {'' @ NL;
          b = foldl (\<lambda>b tableRef.
                 let tableName = TableRef_Name tableRef;
                     tableName = (if TableRef_Schema tableRef \<noteq> defaultSchema
                                  then TableRef_Schema tableRef @ ''.'' @ TableRef_Name tableRef
                                  else tableName)
                 in b @ ''  '' @ tableName @ NL) b (TableGroup_Tables tg)
      in b @ ''}'' @ NL)"

definition Table_Generate :: "Table \<Rightarrow> string outcome" where
  "Table_Generate t =
     (let tableName = Table_Name t;
          tableName = (if Table_Schema t \<noteq> defaultSchema then Table_Schema t @ ''.'' @ Table_Name t
                       else tableName);
          tableName = (case Table_Alias t of None \<Rightarrow> tableName | Some a \<Rightarrow> tableName @ '' as '' @ a);
          b = ''Table '' @ tableName;
          b = (if length (Table_Settings t) > 0
               then b @ '' ['' @
                    Join (foldl (\<lambda>settings (key, val). settings @ [key @ '': '' @ val]) []
                            (Table_Settings t)) '', '' @ '']''
               else b);
          b = b @ '' {'' @ NL
      in case write_each (\<lambda>col. Returns (''  '' @ Column_Generate col @ NL)) b (Table_Columns t) of
           Panic \<Rightarrow> Panic
         | Returns b \<Rightarrow>
             (case (if length (Table_Indexes t) > 0
                    then (case write_each (\<lambda>idx. Returns (''    '' @ Index_Generate idx @ NL))
                                 (b @ NL @ ''  indexes {'' @ NL) (Table_Indexes t) of
                            Panic \<Rightarrow> Panic
                          | Returns b \<Rightarrow> Returns (b @ ''  }'' @ NL))
                    else Returns b) of
                Panic \<Rightarrow> Panic
              | Returns b \<Rightarrow>
                  (let b = (case Table_Note t of
                              None \<Rightarrow> b
                            | Some n \<Rightarrow> b @ NL @ ''  Note: '' @ [QUOTE] @ escapeString n @ [QUOTE] @ NL)
                   in Returns (b @ ''}'' @ NL))))"

definition Project_Generate :: "(string \<Rightarrow> string) \<Rightarrow> Project \<Rightarrow> string outcome" where
  "Project_Generate quote p =
     (let b = [];
          b = (if Project_Name p \<noteq> []
               then (let b = b @ ''Project '' @ Project_Name p @ '' {'' @ NL;
                         b = (case Project_DatabaseType p of
                                None \<Rightarrow> b
                              | Some d \<Rightarrow> b @ ''  database_type: '' @ [QUOTE] @ d @ [QUOTE] @ NL);
                         b = (case Project_Note p of
                                None \<Rightarrow> b
                              | Some n \<Rightarrow> b @ ''  Note: '' @ [QUOTE] @ escapeString n @ [QUOTE] @ NL)
                     in b @ ''}'' @ NL @ NL)
               else b)
      in case write_each (\<lambda>enum. Returns (Enum_Generate quote enum @ NL)) b (map snd (Project_Enums p)) of
           Panic \<Rightarrow> Panic
         | Returns b \<Rightarrow>
      (case write_each (\<lambda>table. case Table_Generate table of
                                   Panic \<Rightarrow> Panic
                                 | Returns s \<Rightarrow> Returns (s @ NL)) b (map snd (Project_Tables p)) of
           Panic \<Rightarrow> Panic
         | Returns b \<Rightarrow>
      (case write_each (\<lambda>ref. Returns (Ref_Generate ref @ NL)) b (Project_Refs p) of
           Panic \<Rightarrow> Panic
         | Returns b \<Rightarrow>
      write_each (\<lambda>group. Returns (TableGroup_Generate group @ NL)) b (Project_TableGroups p))))"

section \<open>The validator\<close>

text \<open>
  A validation function returns Go's \<^verbatim>\<open>error\<close>: \<^const>\<open>None\<close> for \<^verbatim>\<open>nil\<close>. An
  error is a \<^verbatim>\<open>ValidationError\<close> with its field and message, or the value that
  \<^verbatim>\<open>fmt.Errorf\<close> makes of the verb \<^verbatim>\<open>%w\<close>: the formatted text together with the
  error it wraps.
\<close>

datatype error = ValidationError string string | wrapError string error

fun Error :: "error \<Rightarrow> string" where
  "Error (ValidationError field message) = field @ '': '' @ message"
| "Error (wrapError msg err) = msg"

text \<open>\<^verbatim>\<open>fmt.Errorf(prefix + "%w", err)\<close>.\<close>

definition Errorf_w :: "string \<Rightarrow> error \<Rightarrow> error" where
  "Errorf_w prefix err = wrapError (prefix @ Error err) err"

text \<open>Reading a \<^verbatim>\<open>map[K]bool\<close> at a key: \<^verbatim>\<open>false\<close> when the key is missing.\<close>

definition index_bool :: "('k \<rightharpoonup> bool) \<Rightarrow> 'k \<Rightarrow> bool" where
  "index_bool m k = (case m k of None \<Rightarrow> False | Some v \<Rightarrow> v)"

definition validTypes :: "RelType \<rightharpoonup> bool" where
  "validTypes = map_of [(OneToMany, True), (ManyToOne, True), (OneToOne, True), (ManyToMany, True)]"

definition validActions :: "RefAction \<rightharpoonup> bool" where
  "validActions =
     map_of [(Cascade, True), (Restrict, True), (SetNull, True), (SetDefault, True), (NoAction, True)]"

definition validateRefAction :: "RefAction \<Rightarrow> error option" where
  "validateRefAction action =
     (if \<not> index_bool validActions action
      then Some (ValidationError ''RefAction'' (''invalid referential action: '' @ action))
      else None)"

definition RefEndpoint_Validate :: "RefEndpoint \<Rightarrow> error option" where
  "RefEndpoint_Validate e =
     (if RefEndpoint_Schema e = [] then Some (ValidationError ''RefEndpoint.Schema'' ''schema is required'')
      else if RefEndpoint_Table e = [] then Some (ValidationError ''RefEndpoint.Table'' ''table is required'')
      else if length (RefEndpoint_Columns e) = 0
        then Some (ValidationError ''RefEndpoint.Columns'' ''at least one column is required'')
      else None)"

definition Ref_Validate :: "Ref \<Rightarrow> error option" where
  "Ref_Validate r =
     (case Ref_Left r of
        None \<Rightarrow> Some (ValidationError ''Ref.Left'' ''left endpoint is required'')
      | Some left \<Rightarrow>
     (case Ref_Right r of
        None \<Rightarrow> Some (ValidationError ''Ref.Right'' ''right endpoint is required'')
      | Some right \<Rightarrow>
     if Ref_Type r = [] then Some (ValidationError ''Ref.Type'' ''relationship type is required'')
     else if \<not> index_bool validTypes (Ref_Type r)
       then Some (ValidationError ''Ref.Type'' (''invalid relationship type: '' @ Ref_Type r))
     else
     (case RefEndpoint_Validate left of
        Some err \<Rightarrow> Some (Errorf_w ''left: '' err)
      | None \<Rightarrow>
     (case RefEndpoint_Validate right of
        Some err \<Rightarrow> Some (Errorf_w ''right: '' err)
      | None \<Rightarrow>
     (case (case Ref_OnDelete r of None \<Rightarrow> None | Some a \<Rightarrow> validateRefAction a) of
        Some err \<Rightarrow> Some (Errorf_w ''on_delete: '' err)
      | None \<Rightarrow>
     (case (case Ref_OnUpdate r of None \<Rightarrow> None | Some a \<Rightarrow> validateRefAction a) of
        Some err \<Rightarrow> Some (Errorf_w ''on_update: '' err)
      | None \<Rightarrow> None))))))"

definition InlineRef_Validate :: "InlineRef \<Rightarrow> error option" where
  "InlineRef_Validate r =
     (if InlineRef_Schema r = [] then Some (ValidationError ''InlineRef.Schema'' ''schema is required'')
      else if InlineRef_Table r = [] then Some (ValidationError ''InlineRef.Table'' ''table is required'')
      else if InlineRef_Column r = [] then Some (ValidationError ''InlineRef.Column'' ''column is required'')
      else if InlineRef_Type r = []
        then Some (ValidationError ''InlineRef.Type'' ''relationship type is required'')
      else if \<not> index_bool validTypes (InlineRef_Type r)
        then Some (ValidationError ''InlineRef.Type'' (''invalid relationship type: '' @ InlineRef_Type r))
      else None)"

definition Column_Validate :: "Column \<Rightarrow> error option" where
  "Column_Validate c =
     (if Column_Name c = [] then Some (ValidationError ''Column.Name'' ''name is required'')
      else if Column_Type c = [] then Some (ValidationError ''Column.Type'' ''type is required'')
      else (case Column_InlineRef c of
              None \<Rightarrow> None
            | Some r \<Rightarrow>
                (case InlineRef_Validate r of
                   Some err \<Rightarrow> Some (Errorf_w ''inline_ref: '' err)
                 | None \<Rightarrow> None)))"

text \<open>The loop of \<^verbatim>\<open>Index.Validate\<close>, from position \<open>idx\<close> on.\<close>

fun Index_Validate_loop :: "nat \<Rightarrow> IndexColumn list \<Rightarrow> error option" where
  "Index_Validate_loop idx [] = None"
| "Index_Validate_loop idx (col # cols) =
     (if IndexColumn_Name col = None \<and> IndexColumn_Expression col = None
      then Some (ValidationError (''Index.Columns['' @ Sprintf_d idx @ '']'')
                   ''either name or expression is required'')
      else if IndexColumn_Name col \<noteq> None \<and> IndexColumn_Expression col \<noteq> None
      then Some (ValidationError (''Index.Columns['' @ Sprintf_d idx @ '']'')
                   ''cannot have both name and expression'')
      else Index_Validate_loop (Suc idx) cols)"

definition Index_Validate :: "Index \<Rightarrow> error option" where
  "Index_Validate i =
     (if length (Index_Columns i) = 0
      then Some (ValidationError ''Index.Columns'' ''at least one column is required'')
      else Index_Validate_loop 0 (Index_Columns i))"

definition Enum_Validate :: "Enum \<Rightarrow> error option" where
  "Enum_Validate e =
     (if Enum_Name e = [] then Some (ValidationError ''Enum.Name'' ''name is required'')
      else if Enum_Schema e = [] then Some (ValidationError ''Enum.Schema'' ''schema is required'')
      else if length (Enum_Values e) = 0
        then Some (ValidationError ''Enum.Values'' ''at least one value is required'')
      else None)"

text \<open>The loop of \<^verbatim>\<open>TableGroup.Validate\<close>, from position \<open>i\<close> on.\<close>

fun TableGroup_Validate_loop :: "nat \<Rightarrow> TableRef list \<Rightarrow> error option" where
  "TableGroup_Validate_loop i [] = None"
| "TableGroup_Validate_loop i (tableRef # tableRefs) =
     (if TableRef_Schema tableRef = []
      then Some (ValidationError (''TableGroup.Tables['' @ Sprintf_d i @ ''].Schema'') ''schema is required'')
      else if TableRef_Name tableRef = []
      then Some (ValidationError (''TableGroup.Tables['' @ Sprintf_d i @ ''].Name'') ''name is required'')
      else TableGroup_Validate_loop (Suc i) tableRefs)"

definition TableGroup_Validate :: "TableGroup \<Rightarrow> error option" where
  "TableGroup_Validate g =
     (if TableGroup_Name g = [] then Some (ValidationError ''TableGroup.Name'' ''name is required'')
      else if length (TableGroup_Tables g) = 0
        then Some (ValidationError ''TableGroup.Tables'' ''at least one table is required'')
      else TableGroup_Validate_loop 0 (TableGroup_Tables g))"

text \<open>
  \<^verbatim>\<open>for k, x := range xs { if err := x.Validate(); err != nil { return
  fmt.Errorf(..., k, err) } }\<close> over pointers, the entries paired with their key or
  index \<open>k\<close>: the first entry whose check fails ends the loop, and a \<^verbatim>\<open>nil\<close> entry
  reached before that panics. The function \<open>wrap\<close> formats the path segment.
\<close>

fun validate_each ::
  "('a \<Rightarrow> error option outcome) \<Rightarrow> ('k \<Rightarrow> string) \<Rightarrow> ('k \<times> 'a option) list \<Rightarrow> error option outcome"
where
  "validate_each v wrap [] = Returns None"
| "validate_each v wrap ((k, None) # xs) = Panic"
| "validate_each v wrap ((k, Some x) # xs) =
     (case v x of
        Panic \<Rightarrow> Panic
      | Returns (Some err) \<Rightarrow> Returns (Some (Errorf_w (wrap k) err))
      | Returns None \<Rightarrow> validate_each v wrap xs)"

definition Table_Validate :: "Table \<Rightarrow> error option outcome" where
  "Table_Validate t =
     (if Table_Name t = [] then Returns (Some (ValidationError ''Table.Name'' ''name is required''))
      else if Table_Schema t = [] then Returns (Some (ValidationError ''Table.Schema'' ''schema is required''))
      else if length (Table_Columns t) = 0
        then Returns (Some (ValidationError ''Table.Columns'' ''at least one column is required''))
      else
        (case validate_each (\<lambda>col. Returns (Column_Validate col))
                (\<lambda>i. ''column '' @ Sprintf_d i @ '': '') (enumerate 0 (Table_Columns t)) of
           Panic \<Rightarrow> Panic
         | Returns (Some err) \<Rightarrow> Returns (Some err)
         | Returns None \<Rightarrow>
             validate_each (\<lambda>idx. Returns (Index_Validate idx))
               (\<lambda>i. ''index '' @ Sprintf_d i @ '': '') (enumerate 0 (Table_Indexes t))))"

definition Project_Validate :: "Project \<Rightarrow> error option outcome" where
  "Project_Validate p =
     (if Project_Name p = [] then Returns (Some (ValidationError ''Project.Name'' ''name is required''))
      else
        (case validate_each Table_Validate (\<lambda>key. ''table '' @ key @ '': '') (Project_Tables p) of
           Panic \<Rightarrow> Panic
         | Returns (Some err) \<Rightarrow> Returns (Some err)
         | Returns None \<Rightarrow>
        (case validate_each (\<lambda>enum. Returns (Enum_Validate enum))
                (\<lambda>key. ''enum '' @ key @ '': '') (Project_Enums p) of
           Panic \<Rightarrow> Panic
         | Returns (Some err) \<Rightarrow> Returns (Some err)
         | Returns None \<Rightarrow>
        (case validate_each (\<lambda>ref. Returns (Ref_Validate ref))
                (\<lambda>i. ''ref '' @ Sprintf_d i @ '': '') (enumerate 0 (Project_Refs p)) of
           Panic \<Rightarrow> Panic
         | Returns (Some err) \<Rightarrow> Returns (Some err)
         | Returns None \<Rightarrow>
             validate_each (\<lambda>group. Returns (TableGroup_Validate group))
               (\<lambda>i. ''table_group '' @ Sprintf_d i @ '': '') (enumerate 0 (Project_TableGroups p))))))"

section \<open>Calls and the iteration order of maps\<close>

text \<open>
  The graph \<open>G\<close> that a caller holds stores each map as the list of its entries, in
  an order of no meaning. A call iterates each map in an order that the Go runtime
  chooses for that call: the
  schedule of the call, which gives for the \<^verbatim>\<open>Enums\<close> map, for the
  \<^verbatim>\<open>Tables\<close> map and for the \<^verbatim>\<open>Settings\<close> map of the table under each key the
  order in which \<^verbatim>\<open>range\<close> yields the entries. A schedule never adds, drops or
  repeats an entry: it returns a permutation.
\<close>

record schedule =
  enum_order :: "Enum option gomap \<Rightarrow> Enum option gomap"
  table_order :: "Table option gomap \<Rightarrow> Table option gomap"
  settings_order :: "string \<Rightarrow> string gomap \<Rightarrow> string gomap"

definition valid_schedule :: "schedule \<Rightarrow> bool" where
  "valid_schedule s \<longleftrightarrow>
     (\<forall>m. mset (enum_order s m) = mset m) \<and>
     (\<forall>m. mset (table_order s m) = mset m) \<and>
     (\<forall>key m. mset (settings_order s key m) = mset m)"

definition range_Settings :: "schedule \<Rightarrow> string \<Rightarrow> Table \<Rightarrow> Table" where
  "range_Settings s key t = t\<lparr>Table_Settings := settings_order s key (Table_Settings t)\<rparr>"

definition as_iterated :: "schedule \<Rightarrow> Project \<Rightarrow> Project" where
  "as_iterated s G =
     G\<lparr>Project_Enums := enum_order s (Project_Enums G),
       Project_Tables := map (\<lambda>(key, t). (key, map_option (range_Settings s key) t))
                           (table_order s (Project_Tables G))\<rparr>"

definition Generate_call :: "(string \<Rightarrow> string) \<Rightarrow> schedule \<Rightarrow> Project \<Rightarrow> string outcome" where
  "Generate_call quote s G = Project_Generate quote (as_iterated s G)"

section \<open>The rendering and the violations, in the words of the specification\<close>

text \<open>
  A string literal in single quotes: each single quote of the text preceded by a
  backslash, every other byte as it is.
\<close>

definition quoted_literal :: "string \<Rightarrow> string" where
  "quoted_literal s = [QUOTE] @ concat (map (\<lambda>c. if c = QUOTE then [BACKSLASH, QUOTE] else [c]) s) @ [QUOTE]"

text \<open>An attribute that is listed when it applies, and one that is listed when its value is set.\<close>

definition attr_if :: "bool \<Rightarrow> string \<Rightarrow> string list" where
  "attr_if applies a = (if applies then [a] else [])"

definition attr_opt :: "string \<Rightarrow> string option \<Rightarrow> string list" where
  "attr_opt label v = (case v of None \<Rightarrow> [] | Some x \<Rightarrow> [label @ x])"

text \<open>The bracketed, comma-joined list, present only when at least one attribute applies.\<close>

definition attribute_list :: "string list \<Rightarrow> string" where
  "attribute_list attrs = (if attrs = [] then [] else '' ['' @ Join attrs '', '' @ '']'')"

text \<open>The attributes that come from the settings bundle of a column, in their fixed order.\<close>

definition bundle_attributes :: "ColumnSettings option \<Rightarrow> string list" where
  "bundle_attributes bundle =
     (case bundle of
        None \<Rightarrow> []
      | Some s \<Rightarrow>
          attr_if (ColumnSettings_PrimaryKey s) ''pk'' @
          attr_if (ColumnSettings_Unique s) ''unique'' @
          attr_if (\<not> ColumnSettings_Null s) ''not null'' @
          attr_if (ColumnSettings_Increment s) ''increment'' @
          attr_opt ''default: '' (ColumnSettings_Default s) @
          attr_opt ''check: '' (map_option quoted_literal (ColumnSettings_Check s)))"

definition inline_ref_target :: "InlineRef \<Rightarrow> string" where
  "inline_ref_target r =
     InlineRef_Type r @ '' '' @ InlineRef_Schema r @ ''.'' @ InlineRef_Table r @ ''.'' @ InlineRef_Column r"

text \<open>The bundle that \<^verbatim>\<open>&ColumnSettings{}\<close> allocates: every field at its zero value.\<close>

definition default_bundle :: ColumnSettings where
  "default_bundle =
     \<lparr>ColumnSettings_Default = None, ColumnSettings_Check = None, ColumnSettings_PrimaryKey = False,
      ColumnSettings_Null = False, ColumnSettings_Unique = False, ColumnSettings_Increment = False\<rparr>"

text \<open>An index column with neither or both of name and expression.\<close>

definition bad_IndexColumn :: "IndexColumn \<Rightarrow> bool" where
  "bad_IndexColumn col \<longleftrightarrow>
     (IndexColumn_Name col = None \<and> IndexColumn_Expression col = None) \<or>
     (IndexColumn_Name col \<noteq> None \<and> IndexColumn_Expression col \<noteq> None)"

text \<open>
  A qualified name: the default schema \<^verbatim>\<open>public\<close> is left out, any other schema is
  written in front of the name.
\<close>

definition qualified_name :: "string \<Rightarrow> string \<Rightarrow> string" where
  "qualified_name schema name = (if schema = ''public'' then name else schema @ ''.'' @ name)"

text \<open>The note line that closes a table or enum block.\<close>

definition note_block :: "string option \<Rightarrow> string" where
  "note_block note =
     (case note of None \<Rightarrow> [] | Some n \<Rightarrow> NL @ ''  Note: '' @ quoted_literal n @ NL)"

text \<open>The entries of a slice of pointers that are not \<^verbatim>\<open>nil\<close>, and whether all are.\<close>

definition entries :: "'a option list \<Rightarrow> 'a list" where
  "entries xs = List.map_filter (\<lambda>x. x) xs"

definition no_nil :: "'a option list \<Rightarrow> bool" where
  "no_nil xs = list_all (\<lambda>x. x \<noteq> None) xs"

text \<open>The text of each entity, block by block.\<close>

definition IndexColumn_text :: "IndexColumn \<Rightarrow> string list" where
  "IndexColumn_text col =
     (case IndexColumn_Name col of
        Some n \<Rightarrow> [n]
      | None \<Rightarrow> (case IndexColumn_Expression col of
                    Some e \<Rightarrow> [[BACKTICK] @ e @ [BACKTICK]]
                  | None \<Rightarrow> []))"

definition Index_text :: "Index \<Rightarrow> string" where
  "Index_text i =
     ''('' @ Join (concat (map IndexColumn_text (Index_Columns i))) '', '' @ '')'' @
     attribute_list
       (attr_if (Index_PrimaryKey i) ''pk'' @
        attr_if (Index_Unique i) ''unique'' @
        attr_opt ''type: '' (Index_Type i) @
        attr_opt ''name: '' (map_option quoted_literal (Index_Name i)) @
        attr_opt ''note: '' (map_option quoted_literal (Index_Note i)))"

definition Column_text :: "Column \<Rightarrow> string" where
  "Column_text c =
     Column_Name c @ '' '' @ Column_Type c @
     attribute_list (bundle_attributes (Column_Settings c) @
                     attr_opt ''ref: '' (map_option inline_ref_target (Column_InlineRef c)) @
                     attr_opt ''note: '' (map_option quoted_literal (Column_Note c)))"

definition endpoint_text :: "RefEndpoint option \<Rightarrow> string" where
  "endpoint_text endpoint =
     (case endpoint of
        None \<Rightarrow> []
      | Some e \<Rightarrow>
          qualified_name (RefEndpoint_Schema e) (RefEndpoint_Table e) @
          (case RefEndpoint_Columns e of
             [c] \<Rightarrow> ''.'' @ c
           | cs \<Rightarrow> ''.('' @ Join cs '', '' @ '')''))"

definition Ref_header :: "Ref \<Rightarrow> string" where
  "Ref_header r =
     ''Ref'' @ (case Ref_Name r of None \<Rightarrow> [] | Some n \<Rightarrow> '' '' @ n) @
     attribute_list (attr_opt ''delete: '' (Ref_OnDelete r) @
                     attr_opt ''update: '' (Ref_OnUpdate r) @
                     attr_opt ''color: '' (Ref_Color r))"

definition Ref_text :: "Ref \<Rightarrow> string" where
  "Ref_text r =
     Ref_header r @ '' {'' @ NL @
     ''  '' @ endpoint_text (Ref_Left r) @ '' '' @ Ref_Type r @ '' '' @ endpoint_text (Ref_Right r) @ NL @
     ''}'' @ NL"

definition Enum_text :: "(string \<Rightarrow> string) \<Rightarrow> Enum \<Rightarrow> string" where
  "Enum_text quote e =
     ''Enum '' @ qualified_name (Enum_Schema e) (Enum_Name e) @ '' {'' @ NL @
     concat (map (\<lambda>v. ''  '' @ (if Contains_space v then quote v else v) @ NL) (Enum_Values e)) @
     note_block (Enum_Note e) @
     ''}'' @ NL"

definition TableGroup_text :: "TableGroup \<Rightarrow> string" where
  "TableGroup_text tg =
     ''TableGroup '' @ TableGroup_Name tg @ '' {'' @ NL @
     concat (map (\<lambda>r. ''  '' @ qualified_name (TableRef_Schema r) (TableRef_Name r) @ NL)
               (TableGroup_Tables tg)) @
     ''}'' @ NL"

definition Table_body :: "Table \<Rightarrow> string" where
  "Table_body t =
     (case Table_Alias t of None \<Rightarrow> [] | Some a \<Rightarrow> '' as '' @ a) @
     attribute_list (map (\<lambda>(key, val). key @ '': '' @ val) (Table_Settings t)) @
     '' {'' @ NL @
     concat (map (\<lambda>c. ''  '' @ Column_text c @ NL) (entries (Table_Columns t))) @
     (if Table_Indexes t = [] then []
      else NL @ ''  indexes {'' @ NL @
           concat (map (\<lambda>i. ''    '' @ Index_text i @ NL) (entries (Table_Indexes t))) @
           ''  }'' @ NL) @
     note_block (Table_Note t) @
     ''}'' @ NL"

definition Table_text :: "Table \<Rightarrow> string" where
  "Table_text t = ''Table '' @ qualified_name (Table_Schema t) (Table_Name t) @ Table_body t"

definition Project_header :: "Project \<Rightarrow> string" where
  "Project_header p =
     (if Project_Name p = [] then []
      else ''Project '' @ Project_Name p @ '' {'' @ NL @
           (case Project_DatabaseType p of
              None \<Rightarrow> []
            | Some d \<Rightarrow> ''  database_type: '' @ [QUOTE] @ d @ [QUOTE] @ NL) @
           (case Project_Note p of
              None \<Rightarrow> []
            | Some n \<Rightarrow> ''  Note: '' @ quoted_literal n @ NL) @
           ''}'' @ NL @ NL)"

definition Project_text :: "(string \<Rightarrow> string) \<Rightarrow> Project \<Rightarrow> string" where
  "Project_text quote p =
     Project_header p @
     concat (map (\<lambda>e. Enum_text quote e @ NL) (entries (map snd (Project_Enums p)))) @
     concat (map (\<lambda>t. Table_text t @ NL) (entries (map snd (Project_Tables p)))) @
     concat (map (\<lambda>r. Ref_text r @ NL) (entries (Project_Refs p))) @
     concat (map (\<lambda>g. TableGroup_text g @ NL) (entries (Project_TableGroups p)))"

text \<open>The name of an endpoint: the qualified table name, then the column or columns.\<close>

definition endpoint_columns :: "string list \<Rightarrow> string" where
  "endpoint_columns cols =
     (case cols of [c] \<Rightarrow> ''.'' @ c | cs \<Rightarrow> ''.('' @ Join cs '', '' @ '')'')"

definition endpoint_name :: "RefEndpoint option \<Rightarrow> string" where
  "endpoint_name endpoint =
     (case endpoint of
        None \<Rightarrow> []
      | Some ep \<Rightarrow>
          qualified_name (RefEndpoint_Schema ep) (RefEndpoint_Table ep) @
          endpoint_columns (RefEndpoint_Columns ep))"

text \<open>The entries of a map or indexed slice of pointers that are not \<^verbatim>\<open>nil\<close>, with their keys.\<close>

fun present :: "('k \<times> 'a option) list \<Rightarrow> ('k \<times> 'a) list" where
  "present [] = []"
| "present ((k, None) # xs) = present xs"
| "present ((k, Some x) # xs) = (k, x) # present xs"

text \<open>
  A graph without \<^verbatim>\<open>nil\<close> entries: every table, enum, relationship and table
  group of the project, and every column and index of its tables, is there.
\<close>

definition Table_nil_free :: "Table \<Rightarrow> bool" where
  "Table_nil_free t \<longleftrightarrow> no_nil (Table_Columns t) \<and> no_nil (Table_Indexes t)"

definition Project_nil_free :: "Project \<Rightarrow> bool" where
  "Project_nil_free p \<longleftrightarrow>
     list_all (\<lambda>t. case t of None \<Rightarrow> False | Some t \<Rightarrow> Table_nil_free t) (map snd (Project_Tables p)) \<and>
     no_nil (map snd (Project_Enums p)) \<and>
     no_nil (Project_Refs p) \<and>
     no_nil (Project_TableGroups p)"

text \<open>
  What \<^verbatim>\<open>strconv.Quote\<close> makes of printable ASCII text: the text between double
  quotes, with a backslash before each double quote and each backslash. It stands for
  the parameter \<open>quote\<close> in the examples below.
\<close>

definition Quote_ascii :: "string \<Rightarrow> string" where
  "Quote_ascii s =
     [CHR 0x22] @
     concat (map (\<lambda>c. if c = CHR 0x22 \<or> c = BACKSLASH then [BACKSLASH, c] else [c]) s) @
     [CHR 0x22]"

text \<open>No map of the graph holds more than one entry.\<close>

definition small_maps :: "Project \<Rightarrow> bool" where
  "small_maps p \<longleftrightarrow>
     length (Project_Tables p) \<le> 1 \<and> length (Project_Enums p) \<le> 1 \<and>
     list_all (\<lambda>t. case t of None \<Rightarrow> True | Some t \<Rightarrow> length (Table_Settings t) \<le> 1)
       (map snd (Project_Tables p))"

text \<open>Two schedules for the examples: the stored order, and its reverse.\<close>

definition in_order :: schedule where
  "in_order = \<lparr>enum_order = (\<lambda>m. m), table_order = (\<lambda>m. m), settings_order = (\<lambda>key m. m)\<rparr>"

definition reversed :: schedule where
  "reversed = \<lparr>enum_order = rev, table_order = rev, settings_order = (\<lambda>key. rev)\<rparr>"

subsection \<open>The rules of validation\<close>

text \<open>
  What the traversal can find at a place of the graph: a violation of a rule, with
  its error; a \<^verbatim>\<open>nil\<close> entry in a map or slice of pointers; or a relationship whose
  two endpoints differ in the number of their columns, for which the validator has
  no error.
\<close>

datatype finding = Violation error | Nil_entry | Count_mismatch

text \<open>A rule and the error that reports it.\<close>

definition broken :: "bool \<Rightarrow> error \<Rightarrow> error list" where
  "broken rule_broken e = (if rule_broken then [e] else [])"

text \<open>The four cardinalities and the five referential actions.\<close>

definition recognized_cardinality :: "RelType \<Rightarrow> bool" where
  "recognized_cardinality t \<longleftrightarrow> t \<in> set [OneToMany, ManyToOne, OneToOne, ManyToMany]"

definition recognized_action :: "RefAction \<Rightarrow> bool" where
  "recognized_action a \<longleftrightarrow> a \<in> set [Cascade, Restrict, SetNull, SetDefault, NoAction]"

text \<open>
  The rules of each entity, every broken rule listed: required strings are not
  empty, required sequences are not empty, an index column has exactly one of name
  and expression, a cardinality and an action are recognised ones. An inline ref is
  reported under the segment \<^verbatim>\<open>inline_ref\<close> of its column.
\<close>

definition InlineRef_violations :: "InlineRef \<Rightarrow> error list" where
  "InlineRef_violations r =
     broken (InlineRef_Schema r = []) (ValidationError ''InlineRef.Schema'' ''schema is required'') @
     broken (InlineRef_Table r = []) (ValidationError ''InlineRef.Table'' ''table is required'') @
     broken (InlineRef_Column r = []) (ValidationError ''InlineRef.Column'' ''column is required'') @
     broken (InlineRef_Type r = [])
       (ValidationError ''InlineRef.Type'' ''relationship type is required'') @
     broken (\<not> recognized_cardinality (InlineRef_Type r))
       (ValidationError ''InlineRef.Type'' (''invalid relationship type: '' @ InlineRef_Type r))"

definition Column_violations :: "Column \<Rightarrow> error list" where
  "Column_violations c =
     broken (Column_Name c = []) (ValidationError ''Column.Name'' ''name is required'') @
     broken (Column_Type c = []) (ValidationError ''Column.Type'' ''type is required'') @
     (case Column_InlineRef c of
        None \<Rightarrow> []
      | Some r \<Rightarrow> map (Errorf_w ''inline_ref: '') (InlineRef_violations r))"

definition IndexColumn_violations :: "nat \<Rightarrow> IndexColumn \<Rightarrow> error list" where
  "IndexColumn_violations idx col =
     broken (IndexColumn_Name col = None \<and> IndexColumn_Expression col = None)
       (ValidationError (''Index.Columns['' @ Sprintf_d idx @ '']'')
          ''either name or expression is required'') @
     broken (IndexColumn_Name col \<noteq> None \<and> IndexColumn_Expression col \<noteq> None)
       (ValidationError (''Index.Columns['' @ Sprintf_d idx @ '']'')
          ''cannot have both name and expression'')"

definition Index_violations :: "Index \<Rightarrow> error list" where
  "Index_violations i =
     broken (Index_Columns i = [])
       (ValidationError ''Index.Columns'' ''at least one column is required'') @
     concat (map (\<lambda>(idx, col). IndexColumn_violations idx col) (enumerate 0 (Index_Columns i)))"

definition Enum_violations :: "Enum \<Rightarrow> error list" where
  "Enum_violations e =
     broken (Enum_Name e = []) (ValidationError ''Enum.Name'' ''name is required'') @
     broken (Enum_Schema e = []) (ValidationError ''Enum.Schema'' ''schema is required'') @
     broken (Enum_Values e = []) (ValidationError ''Enum.Values'' ''at least one value is required'')"

definition TableRef_violations :: "nat \<Rightarrow> TableRef \<Rightarrow> error list" where
  "TableRef_violations i m =
     broken (TableRef_Schema m = [])
       (ValidationError (''TableGroup.Tables['' @ Sprintf_d i @ ''].Schema'') ''schema is required'') @
     broken (TableRef_Name m = [])
       (ValidationError (''TableGroup.Tables['' @ Sprintf_d i @ ''].Name'') ''name is required'')"

definition TableGroup_violations :: "TableGroup \<Rightarrow> error list" where
  "TableGroup_violations g =
     broken (TableGroup_Name g = []) (ValidationError ''TableGroup.Name'' ''name is required'') @
     broken (TableGroup_Tables g = [])
       (ValidationError ''TableGroup.Tables'' ''at least one table is required'') @
     concat (map (\<lambda>(i, m). TableRef_violations i m) (enumerate 0 (TableGroup_Tables g)))"

definition RefEndpoint_violations :: "RefEndpoint \<Rightarrow> error list" where
  "RefEndpoint_violations e =
     broken (RefEndpoint_Schema e = []) (ValidationError ''RefEndpoint.Schema'' ''schema is required'') @
     broken (RefEndpoint_Table e = []) (ValidationError ''RefEndpoint.Table'' ''table is required'') @
     broken (RefEndpoint_Columns e = [])
       (ValidationError ''RefEndpoint.Columns'' ''at least one column is required'')"

definition action_violations :: "RefAction option \<Rightarrow> error list" where
  "action_violations action =
     (case action of
        None \<Rightarrow> []
      | Some a \<Rightarrow>
          broken (\<not> recognized_action a)
            (ValidationError ''RefAction'' (''invalid referential action: '' @ a)))"

text \<open>
  A relationship: both endpoints are required, the type is a recognised cardinality,
  each endpoint is complete, the two endpoints have the same number of columns, and
  the actions are recognised ones.
\<close>

definition column_counts_differ :: "Ref \<Rightarrow> bool" where
  "column_counts_differ r =
     (case Ref_Left r of
        None \<Rightarrow> False
      | Some left \<Rightarrow>
          (case Ref_Right r of
             None \<Rightarrow> False
           | Some right \<Rightarrow> length (RefEndpoint_Columns left) \<noteq> length (RefEndpoint_Columns right)))"

definition Ref_findings :: "Ref \<Rightarrow> finding list" where
  "Ref_findings r =
     map Violation
       (broken (Ref_Left r = None) (ValidationError ''Ref.Left'' ''left endpoint is required'') @
        broken (Ref_Right r = None) (ValidationError ''Ref.Right'' ''right endpoint is required'') @
        broken (Ref_Type r = []) (ValidationError ''Ref.Type'' ''relationship type is required'') @
        broken (\<not> recognized_cardinality (Ref_Type r))
          (ValidationError ''Ref.Type'' (''invalid relationship type: '' @ Ref_Type r)) @
        (case Ref_Left r of
           None \<Rightarrow> []
         | Some left \<Rightarrow> map (Errorf_w ''left: '') (RefEndpoint_violations left)) @
        (case Ref_Right r of
           None \<Rightarrow> []
         | Some right \<Rightarrow> map (Errorf_w ''right: '') (RefEndpoint_violations right))) @
     (if column_counts_differ r then [Count_mismatch] else []) @
     map Violation
       (map (Errorf_w ''on_delete: '') (action_violations (Ref_OnDelete r)) @
        map (Errorf_w ''on_update: '') (action_violations (Ref_OnUpdate r)))"

text \<open>
  A parent reports what is found in a member under the path segment of the member,
  its map key or its position counted from zero, in front of the member's error. A
  \<^verbatim>\<open>nil\<close> member is a finding of its own.
\<close>

definition wrap_finding :: "string \<Rightarrow> finding \<Rightarrow> finding" where
  "wrap_finding segment f =
     (case f of
        Violation e \<Rightarrow> Violation (Errorf_w segment e)
      | Nil_entry \<Rightarrow> Nil_entry
      | Count_mismatch \<Rightarrow> Count_mismatch)"

definition member_findings ::
  "('k \<Rightarrow> string) \<Rightarrow> ('a \<Rightarrow> finding list) \<Rightarrow> ('k \<times> 'a option) list \<Rightarrow> finding list" where
  "member_findings segment findings members =
     concat (map (\<lambda>(k, x). case x of
                              None \<Rightarrow> [Nil_entry]
                            | Some x \<Rightarrow> map (wrap_finding (segment k)) (findings x)) members)"

text \<open>
  The findings of a table and of a project, in the order of the traversal: the
  project's required fields, then the tables (the table's own fields, its columns in
  declared order, its indexes in declared order), then the enums, the relationships
  in declared order and the table groups in declared order.
\<close>

definition Table_findings :: "Table \<Rightarrow> finding list" where
  "Table_findings t =
     map Violation
       (broken (Table_Name t = []) (ValidationError ''Table.Name'' ''name is required'') @
        broken (Table_Schema t = []) (ValidationError ''Table.Schema'' ''schema is required'') @
        broken (Table_Columns t = [])
          (ValidationError ''Table.Columns'' ''at least one column is required'')) @
     member_findings (\<lambda>i. ''column '' @ Sprintf_d i @ '': '') (\<lambda>c. map Violation (Column_violations c))
       (enumerate 0 (Table_Columns t)) @
     member_findings (\<lambda>i. ''index '' @ Sprintf_d i @ '': '') (\<lambda>i. map Violation (Index_violations i))
       (enumerate 0 (Table_Indexes t))"

definition Project_findings :: "Project \<Rightarrow> finding list" where
  "Project_findings p =
     map Violation
       (broken (Project_Name p = []) (ValidationError ''Project.Name'' ''name is required'')) @
     member_findings (\<lambda>key. ''table '' @ key @ '': '') Table_findings (Project_Tables p) @
     member_findings (\<lambda>key. ''enum '' @ key @ '': '') (\<lambda>e. map Violation (Enum_violations e))
       (Project_Enums p) @
     member_findings (\<lambda>i. ''ref '' @ Sprintf_d i @ '': '') Ref_findings
       (enumerate 0 (Project_Refs p)) @
     member_findings (\<lambda>i. ''table_group '' @ Sprintf_d i @ '': '')
       (\<lambda>g. map Violation (TableGroup_violations g)) (enumerate 0 (Project_TableGroups p))"

definition first_finding :: "finding list \<Rightarrow> finding option" where
  "first_finding fs = (case fs of [] \<Rightarrow> None | f # _ \<Rightarrow> Some f)"

subsection \<open>Auxiliary functions of the proofs\<close>

text \<open>
  The first error of a list, and the outcome of a traversal that stops at the first
  finding it has a check for.
\<close>

definition first_error :: "error list \<Rightarrow> error option" where
  "first_error es = (case es of [] \<Rightarrow> None | e # _ \<Rightarrow> Some e)"

fun stops_at :: "finding list \<Rightarrow> error option outcome" where
  "stops_at [] = Returns None"
| "stops_at (Violation e # fs) = Returns (Some e)"
| "stops_at (Nil_entry # fs) = Panic"
| "stops_at (Count_mismatch # fs) = stops_at fs"

section \<open>The column line\<close>

lemma escapeString_concat:
  "escapeString s = concat (map (\<lambda>c. if c = QUOTE then [BACKSLASH, QUOTE] else [c]) s)"
  unfolding escapeString_def by (induction s) simp_all

lemma quoted_escapeString: "[QUOTE] @ escapeString s @ [QUOTE] = quoted_literal s"
  by (simp add: quoted_literal_def escapeString_concat)

lemma Column_Generate_attrs:
  "Column_Generate c =
     Column_Name c @ '' '' @ Column_Type c @
     attribute_list (bundle_attributes (Column_Settings c) @
                     attr_opt ''ref: '' (map_option inline_ref_target (Column_InlineRef c)) @
                     attr_opt ''note: '' (map_option quoted_literal (Column_Note c)))"
  unfolding Column_Generate_def Let_def attribute_list_def bundle_attributes_def attr_if_def
    attr_opt_def inline_ref_target_def
  using quoted_escapeString
  by (simp split: option.split)

text \<open>
  Claim C6. For every column, \<^verbatim>\<open>Generate\<close> renders the line as the name, a space and
  the type, followed, only when at least one attribute applies, by the bracketed
  comma-joined list of the attributes in this order: \<^verbatim>\<open>pk\<close>, \<^verbatim>\<open>unique\<close>,
  \<^verbatim>\<open>not null\<close> exactly when the nullable flag is false, \<^verbatim>\<open>increment\<close>, the
  default verbatim, the check expression as an escaped literal, the inline ref as the
  cardinality symbol and \<^verbatim>\<open>schema.table.column\<close>, the note as an escaped literal.
  The flags are those of the column's settings bundle; a column without a bundle has
  no flag, and only its inline ref and its note can be listed.
\<close>

theorem Column_Generate_line:
  "Column_Generate
     \<lparr>Column_Settings = Some \<lparr>ColumnSettings_Default = dflt, ColumnSettings_Check = chk,
                               ColumnSettings_PrimaryKey = pk, ColumnSettings_Null = nullable,
                               ColumnSettings_Unique = uniq, ColumnSettings_Increment = incr\<rparr>,
      Column_Note = note, Column_InlineRef = iref, Column_Name = name, Column_Type = ty\<rparr> =
   name @ '' '' @ ty @
   attribute_list
     (attr_if pk ''pk'' @
      attr_if uniq ''unique'' @
      attr_if (\<not> nullable) ''not null'' @
      attr_if incr ''increment'' @
      attr_opt ''default: '' dflt @
      attr_opt ''check: '' (map_option quoted_literal chk) @
      attr_opt ''ref: ''
        (map_option (\<lambda>r. InlineRef_Type r @ '' '' @ InlineRef_Schema r @ ''.'' @ InlineRef_Table r @
                           ''.'' @ InlineRef_Column r) iref) @
      attr_opt ''note: '' (map_option quoted_literal note)) \<and>
   Column_Generate
     \<lparr>Column_Settings = None,
      Column_Note = note, Column_InlineRef = iref, Column_Name = name, Column_Type = ty\<rparr> =
   name @ '' '' @ ty @
   attribute_list
     (attr_opt ''ref: ''
        (map_option (\<lambda>r. InlineRef_Type r @ '' '' @ InlineRef_Schema r @ ''.'' @ InlineRef_Table r @
                           ''.'' @ InlineRef_Column r) iref) @
      attr_opt ''note: '' (map_option quoted_literal note))"
  by (simp add: Column_Generate_attrs bundle_attributes_def inline_ref_target_def cong: map_option_cong)

theorem Column_Generate_line_witness:
  "Column_Generate
     \<lparr>Column_Settings = Some \<lparr>ColumnSettings_Default = Some ''0'', ColumnSettings_Check = Some ''id > 0'',
                               ColumnSettings_PrimaryKey = True, ColumnSettings_Null = False,
                               ColumnSettings_Unique = True, ColumnSettings_Increment = True\<rparr>,
      Column_Note = Some ''user's id'',
      Column_InlineRef = Some \<lparr>InlineRef_Type = ManyToOne, InlineRef_Schema = ''public'',
                                InlineRef_Table = ''users'', InlineRef_Column = ''id''\<rparr>,
      Column_Name = ''id'', Column_Type = ''bigint''\<rparr> =
   ''id bigint [pk, unique, not null, increment, default: 0, check: '' @ [QUOTE] @ ''id > 0'' @ [QUOTE] @
   '', ref: > public.users.id, note: '' @ [QUOTE] @ ''user'' @ [BACKSLASH, QUOTE] @ ''s id'' @ [QUOTE] @ '']''"
  by (subst Column_Generate_line [THEN conjunct1])
    (simp add: attribute_list_def attr_if_def attr_opt_def quoted_literal_def ManyToOne_def)



text \<open>
  Claim C10. The target of an inline ref is always rendered in full, as
  \<^verbatim>\<open>schema.table.column\<close>: the schema is printed whatever it is, also when it is
  \<^verbatim>\<open>public\<close>.
\<close>

theorem Column_Generate_inline_ref:
  "Column_InlineRef c = Some r \<Longrightarrow>
   Column_Generate c =
     Column_Name c @ '' '' @ Column_Type c @ '' ['' @
     Join (bundle_attributes (Column_Settings c) @
           [''ref: '' @ InlineRef_Type r @ '' '' @
            InlineRef_Schema r @ ''.'' @ InlineRef_Table r @ ''.'' @ InlineRef_Column r] @
           attr_opt ''note: '' (map_option quoted_literal (Column_Note c))) '', '' @ '']''"
  by (simp add: Column_Generate_attrs attribute_list_def attr_opt_def inline_ref_target_def)

theorem Column_Generate_inline_ref_witness:
  "Column_Generate
     \<lparr>Column_Settings = None, Column_Note = None,
      Column_InlineRef = Some \<lparr>InlineRef_Type = ManyToOne, InlineRef_Schema = ''public'',
                                InlineRef_Table = ''users'', InlineRef_Column = ''id''\<rparr>,
      Column_Name = ''user_id'', Column_Type = ''bigint''\<rparr> =
   ''user_id bigint [ref: > public.users.id]''"
  using Column_Generate_inline_ref [of
     "\<lparr>Column_Settings = None, Column_Note = None,
      Column_InlineRef = Some \<lparr>InlineRef_Type = ManyToOne, InlineRef_Schema = ''public'',
                                InlineRef_Table = ''users'', InlineRef_Column = ''id''\<rparr>,
      Column_Name = ''user_id'', Column_Type = ''bigint''\<rparr>"
     "\<lparr>InlineRef_Type = ManyToOne, InlineRef_Schema = ''public'',
                                InlineRef_Table = ''users'', InlineRef_Column = ''id''\<rparr>"]
  by (simp add: bundle_attributes_def attr_opt_def ManyToOne_def)

section \<open>Validation of an index and of a relationship\<close>

lemma Index_Validate_loop_error:
  "Index_Validate_loop idx cols \<noteq> None \<longleftrightarrow> (\<exists>col \<in> set cols. bad_IndexColumn col)"
  by (induction cols arbitrary: idx) (auto simp: bad_IndexColumn_def)

text \<open>
  Claim C7. \<^verbatim>\<open>Index.Validate\<close> returns an error exactly when the index has no column
  or some index column has neither or both of name and expression; an index with at
  least one column, each with exactly one of the two, validates.
\<close>

theorem Index_Validate_error_iff:
  "(Index_Validate i \<noteq> None \<longleftrightarrow>
      Index_Columns i = [] \<or> (\<exists>col \<in> set (Index_Columns i). bad_IndexColumn col)) \<and>
   (Index_Columns i \<noteq> [] \<and>
    (\<forall>col \<in> set (Index_Columns i).
        (IndexColumn_Name col = None) \<noteq> (IndexColumn_Expression col = None)) \<longrightarrow>
      Index_Validate i = None)"
proof -
  have a: "Index_Validate i \<noteq> None \<longleftrightarrow>
      Index_Columns i = [] \<or> (\<exists>col \<in> set (Index_Columns i). bad_IndexColumn col)"
    using Index_Validate_loop_error [of 0 "Index_Columns i"]
    by (simp add: Index_Validate_def)
  have "Index_Validate i = None"
    if "Index_Columns i \<noteq> []"
      and "\<forall>col \<in> set (Index_Columns i).
        (IndexColumn_Name col = None) \<noteq> (IndexColumn_Expression col = None)"
  proof -
    from that(2) have "\<not> (\<exists>col \<in> set (Index_Columns i). bad_IndexColumn col)"
      by (auto simp: bad_IndexColumn_def)
    with that(1) a show ?thesis by blast
  qed
  with a show ?thesis by blast
qed

theorem Index_Validate_error_iff_witness:
  "Index_Validate \<lparr>Index_Type = None, Index_Name = None, Index_Note = None,
                    Index_Columns = [\<lparr>IndexColumn_Name = None,
                                      IndexColumn_Expression = Some ''date(created_at)''\<rparr>],
                    Index_Unique = False, Index_PrimaryKey = False\<rparr> = None"
  using Index_Validate_error_iff [of "\<lparr>Index_Type = None, Index_Name = None, Index_Note = None,
                    Index_Columns = [\<lparr>IndexColumn_Name = None,
                                      IndexColumn_Expression = Some ''date(created_at)''\<rparr>],
                    Index_Unique = False, Index_PrimaryKey = False\<rparr>"]
  by simp

text \<open>
  Claim C1. A relationship whose endpoints are both present and complete, with a
  recognised cardinality, one column on the left and two on the right: the column
  counts are never compared, and \<^verbatim>\<open>Ref.Validate\<close> returns no error.
\<close>

theorem Ref_Validate_mismatched_column_counts:
  "Ref_Validate
     \<lparr>Ref_Name = None,
      Ref_Left = Some \<lparr>RefEndpoint_Schema = ''public'', RefEndpoint_Table = ''posts'',
                        RefEndpoint_Columns = [''user_id'']\<rparr>,
      Ref_Right = Some \<lparr>RefEndpoint_Schema = ''public'', RefEndpoint_Table = ''users'',
                         RefEndpoint_Columns = [''id'', ''tenant_id'']\<rparr>,
      Ref_OnDelete = None, Ref_OnUpdate = None, Ref_Color = None, Ref_Type = ManyToOne\<rparr> = None"
  by (simp add: Ref_Validate_def RefEndpoint_Validate_def index_bool_def validTypes_def
      OneToMany_def ManyToOne_def OneToOne_def ManyToMany_def)

section \<open>The generator, block by block\<close>

lemma entries_simps [simp]:
  "entries [] = []" "entries (None # xs) = entries xs" "entries (Some x # xs) = x # entries xs"
  by (simp_all add: entries_def List.map_filter_simps)

lemma no_nil_simps [simp]:
  "no_nil [] = True" "no_nil (None # xs) = False" "no_nil (Some x # xs) = no_nil xs"
  by (simp_all add: no_nil_def)

lemma foldl_append_concat: "foldl (\<lambda>b x. b @ f x) b xs = b @ concat (map f xs)"
  by (induction xs arbitrary: b) simp_all

lemma foldl_snoc_map: "foldl (\<lambda>acc x. acc @ [f x]) acc xs = acc @ map f xs"
  by (induction xs arbitrary: acc) simp_all

lemma write_each_general:
  assumes "\<And>x. f x = (if ok x then Returns (g x) else Panic)"
  shows "write_each f b xs =
           (if list_all (\<lambda>x. case x of None \<Rightarrow> False | Some x \<Rightarrow> ok x) xs
            then Returns (b @ concat (map g (entries xs))) else Panic)"
proof (induction xs arbitrary: b)
  case Nil
  show ?case by simp
next
  case (Cons x xs)
  show ?case
  proof (cases x)
    case None
    then show ?thesis by simp
  next
    case (Some y)
    then show ?thesis using Cons.IH by (simp add: assms)
  qed
qed

lemma write_each_total:
  "write_each (\<lambda>x. Returns (g x)) b xs =
     (if no_nil xs then Returns (b @ concat (map g (entries xs))) else Panic)"
proof -
  have "list_all (\<lambda>x. case x of None \<Rightarrow> False | Some x \<Rightarrow> True) xs = no_nil xs" for xs :: "'a option list"
    by (induction xs) (simp_all split: option.split)
  then show ?thesis
    using write_each_general [of "\<lambda>x. Returns (g x)" "\<lambda>_. True" g b xs] by simp
qed

lemma Index_columns_eq:
  "Index_columns columns cols = columns @ concat (map IndexColumn_text cols)"
  by (induction cols arbitrary: columns) (simp_all add: IndexColumn_text_def split: option.split)

lemma Column_Generate_text: "Column_Generate c = Column_text c"
  by (simp add: Column_Generate_attrs Column_text_def)

lemma Index_Generate_text: "Index_Generate i = Index_text i"
  unfolding Index_Generate_def Let_def Index_text_def attribute_list_def attr_if_def attr_opt_def
  using quoted_escapeString
  by (simp add: Index_columns_eq split: option.split)

lemma formatRefEndpoint_text: "formatRefEndpoint endpoint = endpoint_text endpoint"
proof (cases endpoint)
  case None
  then show ?thesis by (simp add: formatRefEndpoint_def endpoint_text_def)
next
  case (Some e)
  have "length (RefEndpoint_Columns e) = 1 \<longleftrightarrow> (\<exists>c. RefEndpoint_Columns e = [c])"
    by (cases "RefEndpoint_Columns e") auto
  then show ?thesis using Some
    by (auto simp: formatRefEndpoint_def endpoint_text_def qualified_name_def defaultSchema_def Let_def
        split: list.split)
qed

lemma Ref_Generate_text: "Ref_Generate r = Ref_text r"
  unfolding Ref_Generate_def Let_def Ref_text_def Ref_header_def attribute_list_def attr_opt_def
  by (simp add: formatRefEndpoint_text split: option.split)

lemma Enum_Generate_text: "Enum_Generate quote e = Enum_text quote e"
proof -
  have "foldl (\<lambda>b v. if Contains_space v then b @ ''  '' @ quote v @ NL else b @ ''  '' @ v @ NL) b vs =
        b @ concat (map (\<lambda>v. ''  '' @ (if Contains_space v then quote v else v) @ NL) vs)" for b vs
    by (induction vs arbitrary: b) simp_all
  then show ?thesis
    unfolding Enum_Generate_def Let_def Enum_text_def note_block_def
    using quoted_escapeString
    by (simp add: qualified_name_def defaultSchema_def split: option.split)
qed

lemma if_neq_swap: "(if x \<noteq> y then a else b) = (if x = y then b else a)"
  by simp

lemma TableGroup_Generate_text: "TableGroup_Generate tg = TableGroup_text tg"
  unfolding TableGroup_Generate_def TableGroup_text_def
  by (simp add: Let_def foldl_append_concat qualified_name_def defaultSchema_def if_neq_swap)

lemma Table_Generate_text:
  "Table_Generate t = (if Table_nil_free t then Returns (Table_text t) else Panic)"
proof -
  have settings: "foldl (\<lambda>settings (key, val). settings @ [key @ '': '' @ val]) [] kvs =
      map (\<lambda>(key, val). key @ '': '' @ val) kvs" for kvs :: "string gomap"
    using foldl_snoc_map [of "\<lambda>(key, val). key @ '': '' @ val" "[]" kvs]
    by (simp add: case_prod_unfold)
  show ?thesis
    unfolding Table_Generate_def settings Let_def Table_text_def Table_body_def Table_nil_free_def
      note_block_def attribute_list_def
    using quoted_escapeString
    by (simp add: write_each_total Column_Generate_text Index_Generate_text
        qualified_name_def defaultSchema_def split: option.split)
qed

lemma Project_Generate_text:
  "Project_Generate quote p =
     (if Project_nil_free p then Returns (Project_text quote p) else Panic)"
proof -
  have tables: "write_each (\<lambda>table. case Table_Generate table of
                                   Panic \<Rightarrow> Panic
                                 | Returns s \<Rightarrow> Returns (s @ NL)) b ts =
      (if list_all (\<lambda>t. case t of None \<Rightarrow> False | Some t \<Rightarrow> Table_nil_free t) ts
       then Returns (b @ concat (map (\<lambda>t. Table_text t @ NL) (entries ts))) else Panic)" for b ts
    by (rule write_each_general) (simp add: Table_Generate_text)
  show ?thesis
    unfolding Project_Generate_def Let_def Project_text_def Project_header_def Project_nil_free_def
    using quoted_escapeString
    by (simp add: tables write_each_total Enum_Generate_text Ref_Generate_text
        TableGroup_Generate_text split: option.split)
qed

lemma endpoint_text_name: "endpoint_text endpoint = endpoint_name endpoint"
  by (simp add: endpoint_text_def endpoint_name_def endpoint_columns_def split: option.split)

text \<open>
  Claim C5. In the output of \<^verbatim>\<open>Generate\<close>, the qualified name of a table, of an
  enum, of a member of a table group and of the endpoint of a relationship is
  rendered without a schema prefix when the schema is \<^verbatim>\<open>public\<close>, and as
  \<^verbatim>\<open>schema.name\<close> for every other schema: the document of a project, block by
  block, and the text of each entity on its own.
\<close>

theorem schema_elision:
  "(Project_nil_free p \<longrightarrow>
      Project_Generate quote p =
        Returns
          (Project_header p @
           concat (map (\<lambda>e. ''Enum '' @ qualified_name (Enum_Schema e) (Enum_Name e) @ '' {'' @ NL @
                              concat (map (\<lambda>v. ''  '' @ (if Contains_space v then quote v else v) @ NL)
                                        (Enum_Values e)) @
                              note_block (Enum_Note e) @ ''}'' @ NL @ NL)
                     (entries (map snd (Project_Enums p)))) @
           concat (map (\<lambda>t. ''Table '' @ qualified_name (Table_Schema t) (Table_Name t) @
                              Table_body t @ NL)
                     (entries (map snd (Project_Tables p)))) @
           concat (map (\<lambda>r. Ref_header r @ '' {'' @ NL @
                              ''  '' @ endpoint_name (Ref_Left r) @ '' '' @ Ref_Type r @ '' '' @
                              endpoint_name (Ref_Right r) @ NL @ ''}'' @ NL @ NL)
                     (entries (Project_Refs p))) @
           concat (map (\<lambda>g. ''TableGroup '' @ TableGroup_Name g @ '' {'' @ NL @
                              concat (map (\<lambda>m. ''  '' @
                                             qualified_name (TableRef_Schema m) (TableRef_Name m) @ NL)
                                        (TableGroup_Tables g)) @
                              ''}'' @ NL @ NL)
                     (entries (Project_TableGroups p))))) \<and>
   (Table_nil_free t \<longrightarrow>
      Table_Generate t =
        Returns (''Table '' @ qualified_name (Table_Schema t) (Table_Name t) @ Table_body t)) \<and>
   Enum_Generate quote e =
     ''Enum '' @ qualified_name (Enum_Schema e) (Enum_Name e) @ '' {'' @ NL @
     concat (map (\<lambda>v. ''  '' @ (if Contains_space v then quote v else v) @ NL) (Enum_Values e)) @
     note_block (Enum_Note e) @ ''}'' @ NL \<and>
   TableGroup_Generate tg =
     ''TableGroup '' @ TableGroup_Name tg @ '' {'' @ NL @
     concat (map (\<lambda>r. ''  '' @ qualified_name (TableRef_Schema r) (TableRef_Name r) @ NL)
               (TableGroup_Tables tg)) @
     ''}'' @ NL \<and>
   Ref_Generate r =
     Ref_header r @ '' {'' @ NL @
     ''  '' @ endpoint_name (Ref_Left r) @ '' '' @ Ref_Type r @ '' '' @ endpoint_name (Ref_Right r) @ NL @
     ''}'' @ NL \<and>
   formatRefEndpoint (Some ep) =
     qualified_name (RefEndpoint_Schema ep) (RefEndpoint_Table ep) @
     (if length (RefEndpoint_Columns ep) = 1 then ''.'' @ RefEndpoint_Columns ep ! 0
      else ''.('' @ Join (RefEndpoint_Columns ep) '', '' @ '')'') \<and>
   qualified_name ''public'' name = name \<and>
   (schema \<noteq> ''public'' \<longrightarrow> qualified_name schema name = schema @ ''.'' @ name)"
proof (intro conjI)
  show "Project_nil_free p \<longrightarrow>
      Project_Generate quote p =
        Returns
          (Project_header p @
           concat (map (\<lambda>e. ''Enum '' @ qualified_name (Enum_Schema e) (Enum_Name e) @ '' {'' @ NL @
                              concat (map (\<lambda>v. ''  '' @ (if Contains_space v then quote v else v) @ NL)
                                        (Enum_Values e)) @
                              note_block (Enum_Note e) @ ''}'' @ NL @ NL)
                     (entries (map snd (Project_Enums p)))) @
           concat (map (\<lambda>t. ''Table '' @ qualified_name (Table_Schema t) (Table_Name t) @
                              Table_body t @ NL)
                     (entries (map snd (Project_Tables p)))) @
           concat (map (\<lambda>r. Ref_header r @ '' {'' @ NL @
                              ''  '' @ endpoint_name (Ref_Left r) @ '' '' @ Ref_Type r @ '' '' @
                              endpoint_name (Ref_Right r) @ NL @ ''}'' @ NL @ NL)
                     (entries (Project_Refs p))) @
           concat (map (\<lambda>g. ''TableGroup '' @ TableGroup_Name g @ '' {'' @ NL @
                              concat (map (\<lambda>m. ''  '' @
                                             qualified_name (TableRef_Schema m) (TableRef_Name m) @ NL)
                                        (TableGroup_Tables g)) @
                              ''}'' @ NL @ NL)
                     (entries (Project_TableGroups p))))"
    by (simp add: Project_Generate_text Project_text_def Enum_text_def Table_text_def Ref_text_def
        TableGroup_text_def endpoint_text_name)
  show "Table_nil_free t \<longrightarrow>
      Table_Generate t =
        Returns (''Table '' @ qualified_name (Table_Schema t) (Table_Name t) @ Table_body t)"
    by (simp add: Table_Generate_text Table_text_def)
  show "Enum_Generate quote e =
     ''Enum '' @ qualified_name (Enum_Schema e) (Enum_Name e) @ '' {'' @ NL @
     concat (map (\<lambda>v. ''  '' @ (if Contains_space v then quote v else v) @ NL) (Enum_Values e)) @
     note_block (Enum_Note e) @ ''}'' @ NL"
    by (simp add: Enum_Generate_text Enum_text_def)
  show "TableGroup_Generate tg =
     ''TableGroup '' @ TableGroup_Name tg @ '' {'' @ NL @
     concat (map (\<lambda>r. ''  '' @ qualified_name (TableRef_Schema r) (TableRef_Name r) @ NL)
               (TableGroup_Tables tg)) @
     ''}'' @ NL"
    by (simp add: TableGroup_Generate_text TableGroup_text_def)
  show "Ref_Generate r =
     Ref_header r @ '' {'' @ NL @
     ''  '' @ endpoint_name (Ref_Left r) @ '' '' @ Ref_Type r @ '' '' @ endpoint_name (Ref_Right r) @ NL @
     ''}'' @ NL"
    by (simp add: Ref_Generate_text Ref_text_def endpoint_text_name)
  show "formatRefEndpoint (Some ep) =
     qualified_name (RefEndpoint_Schema ep) (RefEndpoint_Table ep) @
     (if length (RefEndpoint_Columns ep) = 1 then ''.'' @ RefEndpoint_Columns ep ! 0
      else ''.('' @ Join (RefEndpoint_Columns ep) '', '' @ '')'')"
    by (simp add: formatRefEndpoint_def qualified_name_def defaultSchema_def Let_def)
  show "qualified_name ''public'' name = name"
    by (simp add: qualified_name_def)
  show "schema \<noteq> ''public'' \<longrightarrow> qualified_name schema name = schema @ ''.'' @ name"
    by (simp add: qualified_name_def)
qed


theorem schema_elision_witness:
  "Project_Generate Quote_ascii
     \<lparr>Project_Name = [], Project_DatabaseType = None, Project_Note = None,
      Project_Tables =
        [(''public.users'',
          Some \<lparr>Table_Alias = None, Table_Note = None, Table_Settings = [],
                 Table_Schema = ''public'', Table_Name = ''users'',
                 Table_Columns = [], Table_Indexes = []\<rparr>),
         (''auth.users'',
          Some \<lparr>Table_Alias = None, Table_Note = None, Table_Settings = [],
                 Table_Schema = ''auth'', Table_Name = ''users'',
                 Table_Columns = [], Table_Indexes = []\<rparr>)],
      Project_Enums =
        [(''public.status'',
          Some \<lparr>Enum_Note = None, Enum_Schema = ''public'', Enum_Name = ''status'',
                 Enum_Values = [''active'']\<rparr>),
         (''sales.kind'',
          Some \<lparr>Enum_Note = None, Enum_Schema = ''sales'', Enum_Name = ''kind'',
                 Enum_Values = [''retail'']\<rparr>)],
      Project_TableGroups =
        [Some \<lparr>TableGroup_Name = ''core'',
               TableGroup_Tables = [\<lparr>TableRef_Schema = ''public'', TableRef_Name = ''users''\<rparr>,
                                    \<lparr>TableRef_Schema = ''auth'', TableRef_Name = ''users''\<rparr>]\<rparr>],
      Project_Refs =
        [Some \<lparr>Ref_Name = None,
               Ref_Left = Some \<lparr>RefEndpoint_Schema = ''public'', RefEndpoint_Table = ''posts'',
                                 RefEndpoint_Columns = [''user_id'']\<rparr>,
               Ref_Right = Some \<lparr>RefEndpoint_Schema = ''auth'', RefEndpoint_Table = ''users'',
                                  RefEndpoint_Columns = [''id'']\<rparr>,
               Ref_OnDelete = None, Ref_OnUpdate = None, Ref_Color = None,
               Ref_Type = ManyToOne\<rparr>]\<rparr> =
   Returns
     (''Enum status {'' @ NL @ ''  active'' @ NL @ ''}'' @ NL @ NL @
      ''Enum sales.kind {'' @ NL @ ''  retail'' @ NL @ ''}'' @ NL @ NL @
      ''Table users {'' @ NL @ ''}'' @ NL @ NL @
      ''Table auth.users {'' @ NL @ ''}'' @ NL @ NL @
      ''Ref {'' @ NL @ ''  posts.user_id > auth.users.id'' @ NL @ ''}'' @ NL @ NL @
      ''TableGroup core {'' @ NL @ ''  users'' @ NL @ ''  auth.users'' @ NL @ ''}'' @ NL @ NL) \<and>
   qualified_name ''auth'' ''users'' = ''auth.users''"
  (is "Project_Generate Quote_ascii ?p = Returns ?out \<and> ?q")
proof
  note inst = schema_elision [where p = ?p and quote = Quote_ascii and schema = "''auth''"
      and name = "''users''"]
  have "Project_nil_free ?p"
    by (simp add: Project_nil_free_def Table_nil_free_def)
  with inst have "Project_Generate Quote_ascii ?p =
        Returns
          (Project_header ?p @
           concat (map (\<lambda>e. ''Enum '' @ qualified_name (Enum_Schema e) (Enum_Name e) @ '' {'' @ NL @
                              concat (map (\<lambda>v. ''  '' @ (if Contains_space v then Quote_ascii v else v) @ NL)
                                        (Enum_Values e)) @
                              note_block (Enum_Note e) @ ''}'' @ NL @ NL)
                     (entries (map snd (Project_Enums ?p)))) @
           concat (map (\<lambda>t. ''Table '' @ qualified_name (Table_Schema t) (Table_Name t) @
                              Table_body t @ NL)
                     (entries (map snd (Project_Tables ?p)))) @
           concat (map (\<lambda>r. Ref_header r @ '' {'' @ NL @
                              ''  '' @ endpoint_name (Ref_Left r) @ '' '' @ Ref_Type r @ '' '' @
                              endpoint_name (Ref_Right r) @ NL @ ''}'' @ NL @ NL)
                     (entries (Project_Refs ?p))) @
           concat (map (\<lambda>g. ''TableGroup '' @ TableGroup_Name g @ '' {'' @ NL @
                              concat (map (\<lambda>m. ''  '' @
                                             qualified_name (TableRef_Schema m) (TableRef_Name m) @ NL)
                                        (TableGroup_Tables g)) @
                              ''}'' @ NL @ NL)
                     (entries (Project_TableGroups ?p))))"
    by blast
  then show "Project_Generate Quote_ascii ?p = Returns ?out"
    by (simp add: Project_header_def qualified_name_def note_block_def Table_body_def
        attribute_list_def Ref_header_def attr_opt_def endpoint_name_def endpoint_columns_def
        Contains_space_def ManyToOne_def)
  from inst show ?q by simp
qed

text \<open>
  Claim C2, as amended. \<^verbatim>\<open>Generate\<close> returns a string exactly for the graphs without
  \<^verbatim>\<open>nil\<close> entries, and a relationship renders an absent endpoint as the empty
  string.
\<close>

theorem Project_Generate_returns:
  "((\<exists>s. Project_Generate quote p = Returns s) \<longleftrightarrow> Project_nil_free p) \<and>
   formatRefEndpoint None = [] \<and>
   Ref_Generate r =
     Ref_header r @ '' {'' @ NL @
     ''  '' @ formatRefEndpoint (Ref_Left r) @ '' '' @ Ref_Type r @ '' '' @
     formatRefEndpoint (Ref_Right r) @ NL @ ''}'' @ NL"
  by (simp add: Project_Generate_text Ref_Generate_text Ref_text_def formatRefEndpoint_text
      endpoint_text_def)

theorem Project_Generate_returns_witness:
  "(\<exists>s. Project_Generate Quote_ascii
          \<lparr>Project_Name = ''p'', Project_DatabaseType = None, Project_Note = None,
           Project_Tables = [], Project_Enums = [], Project_TableGroups = [],
           Project_Refs = [Some \<lparr>Ref_Name = None, Ref_Left = None, Ref_Right = None,
                                 Ref_OnDelete = None, Ref_OnUpdate = None, Ref_Color = None,
                                 Ref_Type = ManyToOne\<rparr>]\<rparr> = Returns s) \<and>
   Ref_Generate \<lparr>Ref_Name = None, Ref_Left = None, Ref_Right = None,
                  Ref_OnDelete = None, Ref_OnUpdate = None, Ref_Color = None,
                  Ref_Type = ManyToOne\<rparr> = ''Ref {'' @ NL @ ''   > '' @ NL @ ''}'' @ NL"
  using Project_Generate_returns [of Quote_ascii
          "\<lparr>Project_Name = ''p'', Project_DatabaseType = None, Project_Note = None,
           Project_Tables = [], Project_Enums = [], Project_TableGroups = [],
           Project_Refs = [Some \<lparr>Ref_Name = None, Ref_Left = None, Ref_Right = None,
                                 Ref_OnDelete = None, Ref_OnUpdate = None, Ref_Color = None,
                                 Ref_Type = ManyToOne\<rparr>]\<rparr>"
          "\<lparr>Ref_Name = None, Ref_Left = None, Ref_Right = None,
                  Ref_OnDelete = None, Ref_OnUpdate = None, Ref_Color = None,
                  Ref_Type = ManyToOne\<rparr>"]
  by (simp add: Project_nil_free_def Ref_header_def attribute_list_def attr_opt_def ManyToOne_def)

text \<open>
  Claim C2, as stated, fails where a slice of the graph holds a \<^verbatim>\<open>nil\<close> pointer: the
  project whose only relationship is \<^verbatim>\<open>nil\<close> makes \<^verbatim>\<open>Generate\<close> panic.
\<close>

theorem Project_Generate_nil_ref_panics:
  "Project_Generate Quote_ascii
     \<lparr>Project_Name = ''p'', Project_DatabaseType = None, Project_Note = None,
      Project_Tables = [], Project_Enums = [], Project_TableGroups = [],
      Project_Refs = [None]\<rparr> = Panic"
  by (simp add: Project_Generate_def)

text \<open>
  Claim C8. Every note, check expression and index name that \<^verbatim>\<open>Generate\<close> prints
  between single quotes goes through \<^verbatim>\<open>escapeString\<close>, which puts a backslash
  before each single quote of the text and leaves every other byte as it is: the text
  of each entity holds the \<^const>\<open>quoted_literal\<close> of the project, table, column, index
  and enum note, of the check expression and of the index name.
\<close>

theorem string_literals_escaped:
  "escapeString s = concat (map (\<lambda>c. if c = QUOTE then [BACKSLASH, QUOTE] else [c]) s) \<and>
   quoted_literal s = [QUOTE] @ escapeString s @ [QUOTE] \<and>
   Column_Generate c = Column_text c \<and>
   Index_Generate i = Index_text i \<and>
   Enum_Generate quote e = Enum_text quote e \<and>
   (Table_nil_free t \<longrightarrow> Table_Generate t = Returns (Table_text t)) \<and>
   (Project_nil_free p \<longrightarrow> Project_Generate quote p = Returns (Project_text quote p))"
proof (intro conjI)
  show "escapeString s = concat (map (\<lambda>c. if c = QUOTE then [BACKSLASH, QUOTE] else [c]) s)"
    by (rule escapeString_concat)
  show "quoted_literal s = [QUOTE] @ escapeString s @ [QUOTE]"
    by (rule quoted_escapeString [symmetric])
  show "Column_Generate c = Column_text c"
    by (rule Column_Generate_text)
  show "Index_Generate i = Index_text i"
    by (rule Index_Generate_text)
  show "Enum_Generate quote e = Enum_text quote e"
    by (rule Enum_Generate_text)
  show "Table_nil_free t \<longrightarrow> Table_Generate t = Returns (Table_text t)"
    by (simp add: Table_Generate_text)
  show "Project_nil_free p \<longrightarrow> Project_Generate quote p = Returns (Project_text quote p)"
    by (simp add: Project_Generate_text)
qed



theorem string_literals_escaped_witness:
  "escapeString ''it's'' = ''it'' @ [BACKSLASH, QUOTE] @ ''s'' \<and>
   Project_Generate Quote_ascii
     \<lparr>Project_Name = ''shop'', Project_DatabaseType = None, Project_Note = Some ''Bob's shop'',
      Project_Tables =
        [(''public.users'',
          Some \<lparr>Table_Alias = None, Table_Note = Some ''the shop's users'', Table_Settings = [],
                 Table_Schema = ''public'', Table_Name = ''users'',
                 Table_Columns =
                   [Some \<lparr>Column_Settings = Some (default_bundle\<lparr>ColumnSettings_Check := Some ''name <> 'x' ''\<rparr>),
                          Column_Note = Some ''user's name'', Column_InlineRef = None,
                          Column_Name = ''name'', Column_Type = ''text''\<rparr>],
                 Table_Indexes =
                   [Some \<lparr>Index_Type = None, Index_Name = Some ''users'name'', Index_Note = None,
                          Index_Columns = [\<lparr>IndexColumn_Name = Some ''name'', IndexColumn_Expression = None\<rparr>],
                          Index_Unique = False, Index_PrimaryKey = False\<rparr>]\<rparr>)],
      Project_Enums = [], Project_TableGroups = [], Project_Refs = []\<rparr> =
   Returns
     (''Project shop {'' @ NL @
      ''  Note: '' @ [QUOTE] @ ''Bob'' @ [BACKSLASH, QUOTE] @ ''s shop'' @ [QUOTE] @ NL @
      ''}'' @ NL @ NL @
      ''Table users {'' @ NL @
      ''  name text [not null, check: '' @ [QUOTE] @ ''name <> '' @ [BACKSLASH, QUOTE] @ ''x'' @
         [BACKSLASH, QUOTE] @ '' '' @ [QUOTE] @
         '', note: '' @ [QUOTE] @ ''user'' @ [BACKSLASH, QUOTE] @ ''s name'' @ [QUOTE] @ '']'' @ NL @
      NL @ ''  indexes {'' @ NL @
      ''    (name) [name: '' @ [QUOTE] @ ''users'' @ [BACKSLASH, QUOTE] @ ''name'' @ [QUOTE] @ '']'' @ NL @
      ''  }'' @ NL @
      NL @ ''  Note: '' @ [QUOTE] @ ''the shop'' @ [BACKSLASH, QUOTE] @ ''s users'' @ [QUOTE] @ NL @
      ''}'' @ NL @ NL)"
  (is "?a \<and> Project_Generate Quote_ascii ?p = Returns ?out")
proof
  note inst = string_literals_escaped [where s = "''it's''" and quote = Quote_ascii and p = ?p]
  from inst show ?a by simp
  have nf: "Project_nil_free ?p"
    by (simp add: Project_nil_free_def Table_nil_free_def)
  with inst have "Project_Generate Quote_ascii ?p = Returns (Project_text Quote_ascii ?p)"
    by blast
  moreover have "Project_text Quote_ascii ?p = ?out"
    by (simp add: Project_text_def Project_header_def
      Table_text_def Table_body_def Column_text_def Index_text_def IndexColumn_text_def
      note_block_def attribute_list_def attr_if_def attr_opt_def bundle_attributes_def
      default_bundle_def quoted_literal_def qualified_name_def)
  ultimately show "Project_Generate Quote_ascii ?p = Returns ?out" by simp
qed

section \<open>Repeated calls and the iteration order of maps\<close>

lemma mset_eq_small: "mset ys = mset xs \<Longrightarrow> length xs \<le> 1 \<Longrightarrow> ys = xs"
proof (cases xs)
  case Nil
  assume "mset ys = mset xs"
  with Nil show ?thesis by simp
next
  case (Cons x xs')
  assume "mset ys = mset xs" and "length xs \<le> 1"
  with Cons have "mset ys = {#x#}" and "xs = [x]" by simp_all
  then show ?thesis by (cases ys) (auto split: if_splits)
qed

lemma tables_iterated:
  "concat (map (\<lambda>t. Table_text t @ NL)
             (entries (map snd (map (\<lambda>(key, t). (key, map_option (range_Settings s key) t)) kts)))) =
   concat (map (\<lambda>(key, t). Table_text (t\<lparr>Table_Settings := settings_order s key (Table_Settings t)\<rparr>) @ NL)
             (present kts))"
  by (induction kts rule: present.induct) (simp_all add: range_Settings_def)

lemma Table_nil_free_range_Settings [simp]:
  "Table_nil_free (range_Settings s key t) = Table_nil_free t"
  by (simp add: Table_nil_free_def range_Settings_def)

lemma nil_free_iterated:
  assumes "valid_schedule s" and "Project_nil_free G"
  shows "Project_nil_free (as_iterated s G)"
proof -
  from assms(1) have e: "set (enum_order s (Project_Enums G)) = set (Project_Enums G)"
    and t: "set (table_order s (Project_Tables G)) = set (Project_Tables G)"
    by (auto simp: valid_schedule_def dest: mset_eq_setD)
  from assms(2) have "\<forall>kt \<in> set (Project_Tables G). case snd kt of None \<Rightarrow> False | Some t \<Rightarrow> Table_nil_free t"
    by (simp add: Project_nil_free_def list_all_iff)
  with t have "\<forall>kt \<in> set (table_order s (Project_Tables G)).
      case snd kt of None \<Rightarrow> False | Some t \<Rightarrow> Table_nil_free t"
    by simp
  then have tabs: "list_all (\<lambda>t. case t of None \<Rightarrow> False | Some t \<Rightarrow> Table_nil_free t)
      (map snd (map (\<lambda>(key, t). (key, map_option (range_Settings s key) t))
                  (table_order s (Project_Tables G))))"
    by (auto simp: list_all_iff split: option.splits)
  from assms(2) e have "no_nil (map snd (enum_order s (Project_Enums G)))"
    by (simp add: Project_nil_free_def no_nil_def list_all_iff)
  with tabs assms(2) show ?thesis
    by (simp add: Project_nil_free_def as_iterated_def)
qed

lemma small_maps_iterated:
  assumes "valid_schedule s" and "small_maps G"
  shows "as_iterated s G = G"
proof -
  from assms have e: "enum_order s (Project_Enums G) = Project_Enums G"
    by (simp add: valid_schedule_def small_maps_def mset_eq_small)
  from assms have t: "table_order s (Project_Tables G) = Project_Tables G"
    by (simp add: valid_schedule_def small_maps_def mset_eq_small)
  have "range_Settings s key x = x" if "length (Table_Settings x) \<le> 1" for key x
    using assms(1) that by (simp add: range_Settings_def valid_schedule_def mset_eq_small)
  then have "(key, map_option (range_Settings s key) x) = (key, x)"
    if "case x of None \<Rightarrow> True | Some t \<Rightarrow> length (Table_Settings t) \<le> 1" for key x
    using that by (cases x) simp_all
  moreover from assms(2) have "\<forall>kt \<in> set (Project_Tables G).
      case snd kt of None \<Rightarrow> True | Some t \<Rightarrow> length (Table_Settings t) \<le> 1"
    by (simp add: small_maps_def list_all_iff)
  ultimately have "map (\<lambda>(key, t). (key, map_option (range_Settings s key) t)) (Project_Tables G) =
      Project_Tables G"
    by (intro map_idI) (auto simp: case_prod_unfold)
  with e t show ?thesis by (simp add: as_iterated_def)
qed

lemma valid_in_order: "valid_schedule in_order"
  by (simp add: valid_schedule_def in_order_def)

lemma valid_reversed: "valid_schedule reversed"
  by (simp add: valid_schedule_def reversed_def)

text \<open>
  Claim C4, as amended. A call of \<^verbatim>\<open>Generate\<close> on a graph without \<^verbatim>\<open>nil\<close>
  entries returns the project header, then the enum blocks and the table blocks in
  the order in which the call iterates the \<^verbatim>\<open>Enums\<close> and the \<^verbatim>\<open>Tables\<close> map,
  the settings of each table in the order in which the call iterates its
  \<^verbatim>\<open>Settings\<close> map, then the relationships and the table groups in declared order.
  When none of these maps holds more than one entry, two calls return the same
  string under any two schedules.
\<close>

theorem Generate_call_order:
  assumes "valid_schedule s1" and "valid_schedule s2" and "Project_nil_free G"
  shows "Generate_call quote s1 G =
           Returns
             (Project_header G @
              concat (map (\<lambda>e. Enum_text quote e @ NL)
                        (entries (map snd (enum_order s1 (Project_Enums G))))) @
              concat (map (\<lambda>(key, t).
                             Table_text (t\<lparr>Table_Settings := settings_order s1 key (Table_Settings t)\<rparr>) @ NL)
                        (present (table_order s1 (Project_Tables G)))) @
              concat (map (\<lambda>r. Ref_text r @ NL) (entries (Project_Refs G))) @
              concat (map (\<lambda>g. TableGroup_text g @ NL) (entries (Project_TableGroups G)))) \<and>
         (small_maps G \<longrightarrow>
            Generate_call quote s1 G = Returns (Project_text quote G) \<and>
            Generate_call quote s2 G = Returns (Project_text quote G))"
proof
  have "Generate_call quote s1 G = Returns (Project_text quote (as_iterated s1 G))"
    using nil_free_iterated [OF assms(1,3)] by (simp add: Generate_call_def Project_Generate_text)
  moreover have "Project_text quote (as_iterated s1 G) =
              Project_header G @
              concat (map (\<lambda>e. Enum_text quote e @ NL)
                        (entries (map snd (enum_order s1 (Project_Enums G))))) @
              concat (map (\<lambda>(key, t).
                             Table_text (t\<lparr>Table_Settings := settings_order s1 key (Table_Settings t)\<rparr>) @ NL)
                        (present (table_order s1 (Project_Tables G)))) @
              concat (map (\<lambda>r. Ref_text r @ NL) (entries (Project_Refs G))) @
              concat (map (\<lambda>g. TableGroup_text g @ NL) (entries (Project_TableGroups G)))"
    by (simp add: Project_text_def as_iterated_def tables_iterated Project_header_def del: map_map)
  ultimately show "Generate_call quote s1 G =
           Returns
             (Project_header G @
              concat (map (\<lambda>e. Enum_text quote e @ NL)
                        (entries (map snd (enum_order s1 (Project_Enums G))))) @
              concat (map (\<lambda>(key, t).
                             Table_text (t\<lparr>Table_Settings := settings_order s1 key (Table_Settings t)\<rparr>) @ NL)
                        (present (table_order s1 (Project_Tables G)))) @
              concat (map (\<lambda>r. Ref_text r @ NL) (entries (Project_Refs G))) @
              concat (map (\<lambda>g. TableGroup_text g @ NL) (entries (Project_TableGroups G))))"
    by (simp only:)
  show "small_maps G \<longrightarrow>
            Generate_call quote s1 G = Returns (Project_text quote G) \<and>
            Generate_call quote s2 G = Returns (Project_text quote G)"
    using assms by (simp add: Generate_call_def small_maps_iterated Project_Generate_text)
qed

theorem Generate_call_order_witness:
  "valid_schedule in_order \<and> valid_schedule reversed \<and>
   Generate_call Quote_ascii in_order
     \<lparr>Project_Name = ''p'', Project_DatabaseType = None, Project_Note = None,
      Project_Tables =
        [(''public.users'',
          Some \<lparr>Table_Alias = None, Table_Note = None, Table_Settings = [(''headercolor'', ''#fff'')],
                 Table_Schema = ''public'', Table_Name = ''users'',
                 Table_Columns = [], Table_Indexes = []\<rparr>)],
      Project_Enums = [(''public.a'', Some \<lparr>Enum_Note = None, Enum_Schema = ''public'',
                                            Enum_Name = ''a'', Enum_Values = [''x'']\<rparr>)],
      Project_TableGroups = [], Project_Refs = []\<rparr> =
     Returns (''Project p {'' @ NL @ ''}'' @ NL @ NL @
              ''Enum a {'' @ NL @ ''  x'' @ NL @ ''}'' @ NL @ NL @
              ''Table users [headercolor: #fff] {'' @ NL @ ''}'' @ NL @ NL) \<and>
   Generate_call Quote_ascii reversed
     \<lparr>Project_Name = ''p'', Project_DatabaseType = None, Project_Note = None,
      Project_Tables =
        [(''public.users'',
          Some \<lparr>Table_Alias = None, Table_Note = None, Table_Settings = [(''headercolor'', ''#fff'')],
                 Table_Schema = ''public'', Table_Name = ''users'',
                 Table_Columns = [], Table_Indexes = []\<rparr>)],
      Project_Enums = [(''public.a'', Some \<lparr>Enum_Note = None, Enum_Schema = ''public'',
                                            Enum_Name = ''a'', Enum_Values = [''x'']\<rparr>)],
      Project_TableGroups = [], Project_Refs = []\<rparr> =
     Returns (''Project p {'' @ NL @ ''}'' @ NL @ NL @
              ''Enum a {'' @ NL @ ''  x'' @ NL @ ''}'' @ NL @ NL @
              ''Table users [headercolor: #fff] {'' @ NL @ ''}'' @ NL @ NL)"
  (is "_ \<and> _ \<and> Generate_call Quote_ascii in_order ?G = Returns ?out \<and> _")
proof -
  have nf: "Project_nil_free ?G"
    by (simp add: Project_nil_free_def Table_nil_free_def)
  have small: "small_maps ?G"
    by (simp add: small_maps_def)
  have out: "Project_text Quote_ascii ?G = ?out"
    by (simp add: Project_text_def Project_header_def Enum_text_def Table_text_def Table_body_def
        note_block_def attribute_list_def qualified_name_def Contains_space_def)
  from Generate_call_order [OF valid_in_order valid_reversed nf, of Quote_ascii] small
  have "Generate_call Quote_ascii in_order ?G = Returns (Project_text Quote_ascii ?G)"
    and "Generate_call Quote_ascii reversed ?G = Returns (Project_text Quote_ascii ?G)"
    by blast+
  with out valid_in_order valid_reversed show ?thesis by (simp only: simp_thms)
qed

text \<open>
  Claim C4, as stated, fails: two calls on one and the same project with two enums,
  one iterating the \<^verbatim>\<open>Enums\<close> map in one order and one in the other, return two
  different documents.
\<close>

theorem Generate_call_two_orders:
  "valid_schedule in_order \<and> valid_schedule reversed \<and>
   Generate_call Quote_ascii in_order
     \<lparr>Project_Name = ''p'', Project_DatabaseType = None, Project_Note = None, Project_Tables = [],
      Project_Enums = [(''public.a'', Some \<lparr>Enum_Note = None, Enum_Schema = ''public'',
                                            Enum_Name = ''a'', Enum_Values = [''x'']\<rparr>),
                       (''public.b'', Some \<lparr>Enum_Note = None, Enum_Schema = ''public'',
                                            Enum_Name = ''b'', Enum_Values = [''y'']\<rparr>)],
      Project_TableGroups = [], Project_Refs = []\<rparr> =
     Returns (''Project p {'' @ NL @ ''}'' @ NL @ NL @
              ''Enum a {'' @ NL @ ''  x'' @ NL @ ''}'' @ NL @ NL @
              ''Enum b {'' @ NL @ ''  y'' @ NL @ ''}'' @ NL @ NL) \<and>
   Generate_call Quote_ascii reversed
     \<lparr>Project_Name = ''p'', Project_DatabaseType = None, Project_Note = None, Project_Tables = [],
      Project_Enums = [(''public.a'', Some \<lparr>Enum_Note = None, Enum_Schema = ''public'',
                                            Enum_Name = ''a'', Enum_Values = [''x'']\<rparr>),
                       (''public.b'', Some \<lparr>Enum_Note = None, Enum_Schema = ''public'',
                                            Enum_Name = ''b'', Enum_Values = [''y'']\<rparr>)],
      Project_TableGroups = [], Project_Refs = []\<rparr> =
     Returns (''Project p {'' @ NL @ ''}'' @ NL @ NL @
              ''Enum b {'' @ NL @ ''  y'' @ NL @ ''}'' @ NL @ NL @
              ''Enum a {'' @ NL @ ''  x'' @ NL @ ''}'' @ NL @ NL) \<and>
   Generate_call Quote_ascii in_order
     \<lparr>Project_Name = ''p'', Project_DatabaseType = None, Project_Note = None, Project_Tables = [],
      Project_Enums = [(''public.a'', Some \<lparr>Enum_Note = None, Enum_Schema = ''public'',
                                            Enum_Name = ''a'', Enum_Values = [''x'']\<rparr>),
                       (''public.b'', Some \<lparr>Enum_Note = None, Enum_Schema = ''public'',
                                            Enum_Name = ''b'', Enum_Values = [''y'']\<rparr>)],
      Project_TableGroups = [], Project_Refs = []\<rparr> \<noteq>
   Generate_call Quote_ascii reversed
     \<lparr>Project_Name = ''p'', Project_DatabaseType = None, Project_Note = None, Project_Tables = [],
      Project_Enums = [(''public.a'', Some \<lparr>Enum_Note = None, Enum_Schema = ''public'',
                                            Enum_Name = ''a'', Enum_Values = [''x'']\<rparr>),
                       (''public.b'', Some \<lparr>Enum_Note = None, Enum_Schema = ''public'',
                                            Enum_Name = ''b'', Enum_Values = [''y'']\<rparr>)],
      Project_TableGroups = [], Project_Refs = []\<rparr>"
  (is "_ \<and> _ \<and> ?a \<and> ?b \<and> ?c")
proof -
  have a: ?a
    by (simp add: Generate_call_def as_iterated_def in_order_def Project_Generate_text
        Project_nil_free_def Project_text_def Project_header_def Enum_text_def note_block_def
        qualified_name_def Contains_space_def)
  have b: ?b
    by (simp add: Generate_call_def as_iterated_def reversed_def Project_Generate_text
        Project_nil_free_def Project_text_def Project_header_def Enum_text_def note_block_def
        qualified_name_def Contains_space_def)
  have ?c unfolding a b by simp
  with a b valid_in_order valid_reversed show ?thesis by (simp only: simp_thms)
qed

section \<open>The order of validation\<close>

lemma first_error_simps [simp]:
  "first_error [] = None" "first_error (e # es) = Some e"
  by (simp_all add: first_error_def)

lemma first_error_append:
  "first_error (xs @ ys) = (case first_error xs of Some e \<Rightarrow> Some e | None \<Rightarrow> first_error ys)"
  by (cases xs) simp_all

lemma first_error_map: "first_error (map f xs) = map_option f (first_error xs)"
  by (cases xs) simp_all

lemma first_error_broken [simp]:
  "first_error (broken b e @ es) = (if b then Some e else first_error es)"
  "first_error (broken b e) = (if b then Some e else None)"
  by (simp_all add: broken_def)

lemma stops_at_append:
  "stops_at (fs @ gs) = (if stops_at fs = Returns None then stops_at gs else stops_at fs)"
  by (induction fs rule: stops_at.induct) simp_all

lemma stops_at_Violations: "stops_at (map Violation es) = Returns (first_error es)"
  by (cases es) simp_all

lemma stops_at_Violations_comp:
  "stops_at (map (Violation \<circ> f) es) = Returns (map_option f (first_error es))"
  by (cases es) simp_all

lemma stops_at_wrap:
  "stops_at (map (wrap_finding segment) fs) =
     (case stops_at fs of
        Panic \<Rightarrow> Panic
      | Returns None \<Rightarrow> Returns None
      | Returns (Some e) \<Rightarrow> Returns (Some (Errorf_w segment e)))"
  by (induction fs rule: stops_at.induct) (simp_all add: wrap_finding_def)

lemma validate_each_stops_at:
  assumes "\<And>x. v x = stops_at (findings x)"
  shows "validate_each v segment members = stops_at (member_findings segment findings members)"
proof (induction members)
  case Nil
  show ?case by (simp add: member_findings_def)
next
  case (Cons m members)
  obtain k x where m: "m = (k, x)" by (cases m)
  show ?case
  proof (cases x)
    case None
    with m show ?thesis by (simp add: member_findings_def)
  next
    case (Some y)
    have "member_findings segment findings (m # members) =
        map (wrap_finding (segment k)) (findings y) @ member_findings segment findings members"
      using m Some by (simp add: member_findings_def)
    with m Some Cons.IH show ?thesis
      by (simp add: assms stops_at_append stops_at_wrap split: outcome.split option.split)
  qed
qed


lemma recognized_cardinality_code: "index_bool validTypes t = recognized_cardinality t"
  by (simp add: index_bool_def validTypes_def recognized_cardinality_def)

lemma recognized_action_code: "index_bool validActions a = recognized_action a"
  by (simp add: index_bool_def validActions_def recognized_action_def)

lemma InlineRef_Validate_first: "InlineRef_Validate r = first_error (InlineRef_violations r)"
  by (simp add: InlineRef_Validate_def InlineRef_violations_def recognized_cardinality_code)

lemma Column_Validate_first: "Column_Validate c = first_error (Column_violations c)"
  by (simp add: Column_Validate_def Column_violations_def InlineRef_Validate_first first_error_map
      split: option.split)

lemma Index_Validate_loop_first:
  "Index_Validate_loop n cols =
     first_error (concat (map (\<lambda>(idx, col). IndexColumn_violations idx col) (enumerate n cols)))"
  by (induction cols arbitrary: n) (simp_all add: IndexColumn_violations_def)

lemma Index_Validate_first: "Index_Validate i = first_error (Index_violations i)"
  by (simp add: Index_Validate_def Index_violations_def Index_Validate_loop_first)

lemma Enum_Validate_first: "Enum_Validate e = first_error (Enum_violations e)"
  by (simp add: Enum_Validate_def Enum_violations_def broken_def)

lemma TableGroup_Validate_loop_first:
  "TableGroup_Validate_loop n ms =
     first_error (concat (map (\<lambda>(i, m). TableRef_violations i m) (enumerate n ms)))"
  by (induction ms arbitrary: n) (simp_all add: TableRef_violations_def)

lemma TableGroup_Validate_first: "TableGroup_Validate g = first_error (TableGroup_violations g)"
  by (simp add: TableGroup_Validate_def TableGroup_violations_def TableGroup_Validate_loop_first)

lemma RefEndpoint_Validate_first: "RefEndpoint_Validate e = first_error (RefEndpoint_violations e)"
  by (simp add: RefEndpoint_Validate_def RefEndpoint_violations_def broken_def)

lemma validateRefAction_first:
  "(case action of None \<Rightarrow> None | Some a \<Rightarrow> validateRefAction a) =
     first_error (action_violations action)"
  by (simp add: validateRefAction_def action_violations_def recognized_action_code broken_def
      split: option.split)

lemma stops_at_mismatch [simp]:
  "stops_at ((if b then [Count_mismatch] else []) @ fs) = stops_at fs"
  by simp

lemma Ref_Validate_stops: "stops_at (Ref_findings r) = Returns (Ref_Validate r)"
proof (cases "Ref_Left r")
  case None
  then show ?thesis
    by (simp add: Ref_findings_def Ref_Validate_def stops_at_append stops_at_Violations)
next
  case left: (Some left)
  show ?thesis
  proof (cases "Ref_Right r")
    case None
    with left show ?thesis
      by (simp add: Ref_findings_def Ref_Validate_def stops_at_append stops_at_Violations)
  next
    case right: (Some right)
    with left show ?thesis
      by (simp add: Ref_findings_def Ref_Validate_def stops_at_append stops_at_Violations
          stops_at_Violations_comp RefEndpoint_Validate_first validateRefAction_first
          recognized_cardinality_code split: option.split)
  qed
qed

lemma Table_Validate_stops: "Table_Validate t = stops_at (Table_findings t)"
proof -
  have cols: "validate_each (\<lambda>col. Returns (Column_Validate col))
      (\<lambda>i. ''column '' @ Sprintf_d i @ '': '') kxs =
    stops_at (member_findings (\<lambda>i. ''column '' @ Sprintf_d i @ '': '')
      (\<lambda>c. map Violation (Column_violations c)) kxs)" for kxs
    by (rule validate_each_stops_at) (simp add: stops_at_Violations Column_Validate_first)
  have idxs: "validate_each (\<lambda>idx. Returns (Index_Validate idx))
      (\<lambda>i. ''index '' @ Sprintf_d i @ '': '') kxs =
    stops_at (member_findings (\<lambda>i. ''index '' @ Sprintf_d i @ '': '')
      (\<lambda>i. map Violation (Index_violations i)) kxs)" for kxs
    by (rule validate_each_stops_at) (simp add: stops_at_Violations Index_Validate_first)
  show ?thesis
    unfolding Table_Validate_def Table_findings_def cols idxs
    by (simp add: stops_at_append stops_at_Violations split: outcome.split option.split)
qed

lemma Project_Validate_stops: "Project_Validate p = stops_at (Project_findings p)"
proof -
  have tabs: "validate_each Table_Validate (\<lambda>key. ''table '' @ key @ '': '') kxs =
    stops_at (member_findings (\<lambda>key. ''table '' @ key @ '': '') Table_findings kxs)" for kxs
    by (rule validate_each_stops_at) (rule Table_Validate_stops)
  have enums: "validate_each (\<lambda>enum. Returns (Enum_Validate enum)) (\<lambda>key. ''enum '' @ key @ '': '') kxs =
    stops_at (member_findings (\<lambda>key. ''enum '' @ key @ '': '')
      (\<lambda>e. map Violation (Enum_violations e)) kxs)" for kxs
    by (rule validate_each_stops_at) (simp add: stops_at_Violations Enum_Validate_first)
  have refs: "validate_each (\<lambda>ref. Returns (Ref_Validate ref))
      (\<lambda>i. ''ref '' @ Sprintf_d i @ '': '') kxs =
    stops_at (member_findings (\<lambda>i. ''ref '' @ Sprintf_d i @ '': '') Ref_findings kxs)" for kxs
    by (rule validate_each_stops_at) (simp add: Ref_Validate_stops)
  have groups: "validate_each (\<lambda>group. Returns (TableGroup_Validate group))
      (\<lambda>i. ''table_group '' @ Sprintf_d i @ '': '') kxs =
    stops_at (member_findings (\<lambda>i. ''table_group '' @ Sprintf_d i @ '': '')
      (\<lambda>g. map Violation (TableGroup_violations g)) kxs)" for kxs
    by (rule validate_each_stops_at) (simp add: stops_at_Violations TableGroup_Validate_first)
  show ?thesis
    unfolding Project_Validate_def Project_findings_def tabs enums refs groups
    by (simp add: stops_at_append stops_at_Violations split: outcome.split option.split)
qed

lemmas findings_eval =
  Project_findings_def Table_findings_def member_findings_def wrap_finding_def broken_def
  Column_violations_def TableGroup_violations_def Errorf_w_def enumerate_eq_zip upt_rec
  Sprintf_d.simps digit_def first_finding_def

text \<open>
  Claim C3, as amended. \<^verbatim>\<open>Validate\<close> stops at the first finding of the traversal,
  in the order project fields, tables (own fields, columns, indexes), enums,
  relationships, table groups. With no finding at all it returns no error; when the
  first finding is a violation it returns exactly that one error, each parent having
  put the path segment of the child in front of the child's error, which it keeps;
  when the first finding is a \<^verbatim>\<open>nil\<close> entry it panics. Nothing is stated for a
  graph whose first finding is a relationship with differing column counts.
\<close>

theorem Project_Validate_first_finding:
  "(first_finding (Project_findings p) = None \<longrightarrow> Project_Validate p = Returns None) \<and>
   (first_finding (Project_findings p) = Some (Violation e) \<longrightarrow> Project_Validate p = Returns (Some e)) \<and>
   (first_finding (Project_findings p) = Some Nil_entry \<longrightarrow> Project_Validate p = Panic) \<and>
   Errorf_w segment e' = wrapError (segment @ Error e') e'"
  by (cases "Project_findings p")
    (simp_all add: Project_Validate_stops first_finding_def Errorf_w_def)

theorem Project_Validate_first_finding_witness:
  "Project_Validate
     \<lparr>Project_Name = ''p'', Project_DatabaseType = None, Project_Note = None,
      Project_Tables =
        [(''public.users'',
          Some \<lparr>Table_Alias = None, Table_Note = None, Table_Settings = [],
                 Table_Schema = ''public'', Table_Name = ''users'',
                 Table_Columns =
                   [Some \<lparr>Column_Settings = None, Column_Note = None, Column_InlineRef = None,
                          Column_Name = ''id'', Column_Type = ''bigint''\<rparr>],
                 Table_Indexes = []\<rparr>)],
      Project_Enums = [],
      Project_TableGroups = [],
      Project_Refs = []\<rparr> = Returns None \<and>
   Project_Validate
     \<lparr>Project_Name = ''p'', Project_DatabaseType = None, Project_Note = None,
      Project_Tables =
        [(''public.users'',
          Some \<lparr>Table_Alias = None, Table_Note = None, Table_Settings = [],
                 Table_Schema = ''public'', Table_Name = ''users'',
                 Table_Columns =
                   [Some \<lparr>Column_Settings = None, Column_Note = None, Column_InlineRef = None,
                          Column_Name = ''id'', Column_Type = ''bigint''\<rparr>,
                    Some \<lparr>Column_Settings = None, Column_Note = None, Column_InlineRef = None,
                          Column_Name = ''email'', Column_Type = []\<rparr>],
                 Table_Indexes = []\<rparr>)],
      Project_Enums = [],
      Project_TableGroups = [],
      Project_Refs = [None]\<rparr> =
     Returns (Some
       (wrapError ''table public.users: column 1: Column.Type: type is required''
          (wrapError ''column 1: Column.Type: type is required''
             (ValidationError ''Column.Type'' ''type is required'')))) \<and>
   Project_Validate
     \<lparr>Project_Name = ''p'', Project_DatabaseType = None, Project_Note = None,
      Project_Tables =
        [(''public.users'',
          Some \<lparr>Table_Alias = None, Table_Note = None, Table_Settings = [],
                 Table_Schema = ''public'', Table_Name = ''users'',
                 Table_Columns =
                   [Some \<lparr>Column_Settings = None, Column_Note = None, Column_InlineRef = None,
                          Column_Name = ''id'', Column_Type = ''bigint''\<rparr>],
                 Table_Indexes = []\<rparr>)],
      Project_Enums = [],
      Project_TableGroups = [],
      Project_Refs = [None]\<rparr> = Panic"
  (is "Project_Validate ?a = _ \<and> Project_Validate ?b = Returns (Some ?e) \<and> Project_Validate ?c = _")
proof (intro conjI)
  have "first_finding (Project_findings ?a) = None"
    by (simp add: findings_eval)
  with Project_Validate_first_finding [of ?a] show "Project_Validate ?a = Returns None"
    by blast
  have "first_finding (Project_findings ?b) = Some (Violation ?e)"
    by (simp add: findings_eval)
  with Project_Validate_first_finding [of ?b ?e] show "Project_Validate ?b = Returns (Some ?e)"
    by blast
  have "first_finding (Project_findings ?c) = Some Nil_entry"
    by (simp add: findings_eval)
  with Project_Validate_first_finding [of ?c] show "Project_Validate ?c = Panic"
    by blast
qed

text \<open>
  Claim C3, as stated, fails where a \<^verbatim>\<open>nil\<close> entry comes before the first
  violation: here the table group breaks two rules, and \<^verbatim>\<open>Validate\<close> panics on the
  \<^verbatim>\<open>nil\<close> relationship before it reaches the group.
\<close>

theorem Project_Validate_nil_before_violation:
  "Project_findings
     \<lparr>Project_Name = ''p'', Project_DatabaseType = None, Project_Note = None,
      Project_Tables = [], Project_Enums = [],
      Project_TableGroups = [Some \<lparr>TableGroup_Name = [], TableGroup_Tables = []\<rparr>],
      Project_Refs = [None]\<rparr> =
     [Nil_entry,
      Violation (wrapError ''table_group 0: TableGroup.Name: name is required''
                   (ValidationError ''TableGroup.Name'' ''name is required'')),
      Violation (wrapError ''table_group 0: TableGroup.Tables: at least one table is required''
                   (ValidationError ''TableGroup.Tables'' ''at least one table is required''))] \<and>
   Project_Validate
     \<lparr>Project_Name = ''p'', Project_DatabaseType = None, Project_Note = None,
      Project_Tables = [], Project_Enums = [],
      Project_TableGroups = [Some \<lparr>TableGroup_Name = [], TableGroup_Tables = []\<rparr>],
      Project_Refs = [None]\<rparr> = Panic"
  by (simp add: findings_eval Project_Validate_def)

end
